theory Spec2Isabelle
  imports Main "HOL-Library.Word"
begin

section \<open>Data model\<close>

text \<open>
  The block-production core of the rollup node, file
  \<^verbatim>\<open>op-node/rollup/derive/engine_update.go\<close>. Byte strings (\<^verbatim>\<open>eth.Data\<close>) are lists of
  8-bit words, hashes are 256-bit words, \<^verbatim>\<open>uint64\<close> quantities are 64-bit words. A Go
  pointer that may be \<^verbatim>\<open>nil\<close> is an \<open>option\<close>; a Go \<^verbatim>\<open>error\<close> value is an
  \<open>error option\<close> with \<open>None\<close> for \<^verbatim>\<open>nil\<close>.
\<close>

type_synonym byte = "8 word"
type_synonym Data = "byte list"
type_synonym Hash = "256 word"
type_synonym Uint64Quantity = "64 word"
type_synonym PayloadID = "64 word"

text \<open>
  Modelled from the spec: \<^verbatim>\<open>types.DepositTxType\<close> is declared in the execution client's
  \<^verbatim>\<open>core/types\<close> package, which is not among the sources at hand; the specification calls it
  the leading type byte of a privileged (deposit-type) transaction. The value is the one the
  deposit transaction type has in the OP stack; no general theorem below unfolds it.
\<close>

definition DepositTxType :: byte where
  "DepositTxType = 0x7E"

text \<open>
  \<^verbatim>\<open>eth.ErrorCode\<close>: the two codes the source names, and every other code.
\<close>

datatype ErrorCode = InvalidForkchoiceState | InvalidPayloadAttributes | OtherErrorCode int

text \<open>
  \<^verbatim>\<open>eth.ExecutePayloadStatus\<close>: the three statuses the source names, and every other
  status string (syncing, accepted, ...).
\<close>

datatype ExecutePayloadStatus =
    ExecutionValid
  | ExecutionInvalid
  | ExecutionInvalidBlockHash
  | ExecutionOtherStatus string

text \<open>
  Go errors. \<open>ErrorNew\<close> is \<^verbatim>\<open>errors.New\<close> and also any opaque error of a collaborator,
  \<open>Errorf\<close> is \<^verbatim>\<open>fmt.Errorf\<close> without \<^verbatim>\<open>%w\<close> (format string and the formatted
  numbers), \<open>ErrorfW\<close> is \<^verbatim>\<open>fmt.Errorf\<close> wrapping an error with \<^verbatim>\<open>%w\<close>, and
  \<open>InputError\<close> is \<^verbatim>\<open>eth.InputError{Inner, Code}\<close>. \<open>StatusError\<close> is the value of the
  two status formatters \<^verbatim>\<open>eth.NewPayloadErr\<close> and \<^verbatim>\<open>eth.ForkchoiceUpdateErr\<close>.
\<close>

datatype error =
    ErrorNew string
  | Errorf string "int list"
  | ErrorfW string "int list" error
  | InputError error ErrorCode
  | StatusError string ExecutePayloadStatus

text \<open>
  A run of a Go function either returns or panics (index out of range, nil pointer
  dereference).
\<close>

datatype panic = IndexOutOfRange | NilDereference

datatype 'a outcome = Panic panic | Returned 'a

text \<open>
  \<^verbatim>\<open>eth.ExecutionPayload\<close>, with the fields that identify the block and the list of opaque
  transactions.
\<close>

record ExecutionPayload =
  ParentHash :: Hash
  BlockNumber :: Uint64Quantity
  Timestamp :: Uint64Quantity
  BlockHash :: Hash
  Transactions :: "Data list"

section \<open>Payload validator\<close>

text \<open>
  \<^verbatim>\<open>isDepositTx\<close> returns \<^verbatim>\<open>(bool, error)\<close>: the error for the empty transaction,
  otherwise whether the first byte is the deposit type.
\<close>

definition isDepositTx :: "Data \<Rightarrow> error + bool" where
  "isDepositTx opaqueTx =
     (if length opaqueTx = 0 then Inl (ErrorNew ''empty transaction'')
      else Inr (opaqueTx ! 0 = DepositTxType))"

text \<open>
  The loop of \<^verbatim>\<open>lastDeposit\<close>, over the transactions not yet visited, with the loop index
  \<open>i\<close> and the local variable \<open>lastDeposit\<close> (here \<open>lastDep\<close>). \<^verbatim>\<open>break\<close> leaves the loop with the variable
  as it is.
\<close>

fun lastDeposit_loop :: "Data list \<Rightarrow> nat \<Rightarrow> nat \<Rightarrow> error + nat" where
  "lastDeposit_loop [] i lastDep = Inr lastDep"
| "lastDeposit_loop (tx # rest) i lastDep =
     (case isDepositTx tx of
        Inl err \<Rightarrow> Inl (Errorf ''invalid transaction at idx %d'' [int i])
      | Inr deposit \<Rightarrow>
          if deposit then lastDeposit_loop rest (i + 1) i else Inr lastDep)"

definition lastDeposit :: "Data list \<Rightarrow> error + nat" where
  "lastDeposit txns = lastDeposit_loop txns 0 0"

text \<open>
  The second loop of \<^verbatim>\<open>sanityCheckPayload\<close>:
  \<^verbatim>\<open>for i := lastDeposit + 1; i < len(payload.Transactions); i++\<close>.
\<close>

function sanityCheckPayload_loop :: "Data list \<Rightarrow> nat \<Rightarrow> nat \<Rightarrow> error option" where
  "sanityCheckPayload_loop txs lastDep i =
     (if i < length txs then
        (case isDepositTx (txs ! i) of
           Inl err \<Rightarrow> Some (ErrorfW ''failed to decode transaction idx %d: %w'' [int i] err)
         | Inr deposit \<Rightarrow>
             if deposit
             then Some (Errorf ''deposit tx (%d) after other tx in l2 block with prev deposit at idx %d''
                          [int i, int lastDep])
             else sanityCheckPayload_loop txs lastDep (i + 1))
      else None)"
  by pat_completeness auto
termination
  by (relation "measure (\<lambda>(txs, lastDep, i). length txs - i)") auto

text \<open>
  \<^verbatim>\<open>sanityCheckPayload\<close> takes a pointer to the payload. The expression
  \<^verbatim>\<open>payload.Transactions[0][0]\<close> indexes the first transaction without looking at its
  length, so it panics on the empty byte string.
\<close>

definition sanityCheckPayload :: "ExecutionPayload option \<Rightarrow> error option outcome" where
  "sanityCheckPayload p =
     (case p of
        None \<Rightarrow> Panic NilDereference
      | Some payload \<Rightarrow>
          if length (Transactions payload) = 0
          then Returned (Some (ErrorNew ''no transactions in returned payload''))
          else if length (Transactions payload ! 0) = 0
          then Panic IndexOutOfRange
          else if Transactions payload ! 0 ! 0 \<noteq> DepositTxType
          then Returned (Some (Errorf ''first transaction was not deposit tx. Got %v''
                                 [uint (Transactions payload ! 0 ! 0)]))
          else
            (case lastDeposit (Transactions payload) of
               Inl err \<Rightarrow> Returned (Some (ErrorfW ''failed to find last deposit: %w'' [] err))
             | Inr lastDep \<Rightarrow>
                 Returned (sanityCheckPayload_loop (Transactions payload) lastDep (lastDep + 1))))"

text \<open>
  The specification's words for the validator's rule: a transaction is privileged when its
  leading type byte is the deposit type, and the privileged transactions form a contiguous,
  possibly empty prefix when none of them comes after a transaction that is not privileged.
\<close>

definition is_privileged :: "Data \<Rightarrow> bool" where
  "is_privileged tx = (case tx of [] \<Rightarrow> False | b # _ \<Rightarrow> b = DepositTxType)"

definition spec_privileged_prefix :: "Data list \<Rightarrow> bool" where
  "spec_privileged_prefix txs =
     list_all (\<lambda>tx. \<not> is_privileged tx) (dropWhile is_privileged txs)"

section \<open>Severities, engine records and collaborators\<close>

datatype BlockInsertionErrType =
    BlockInsertOK
  | BlockInsertTemporaryErr
  | BlockInsertPrestateErr
  | BlockInsertPayloadErr

text \<open>
  The records of package \<^verbatim>\<open>eth\<close> with the fields this file reads or writes. The envelope
  holds a pointer to its payload and a pointer to the parent beacon block root.
\<close>

record ExecutionPayloadEnvelope =
  ParentBeaconBlockRoot :: "Hash option"
  ExecutionPayload :: "ExecutionPayload option"

record ForkchoiceState =
  HeadBlockHash :: Hash
  SafeBlockHash :: Hash
  FinalizedBlockHash :: Hash

record PayloadStatusV1 =
  Status :: ExecutePayloadStatus
  LatestValidHash :: "Hash option"

record ForkchoiceUpdatedResult =
  PayloadStatus :: PayloadStatusV1
  PayloadID :: "PayloadID option"

record PayloadAttributes =
  attrs_Timestamp :: Uint64Quantity
  attrs_Transactions :: "Data list"
  attrs_NoTxPool :: bool

record PayloadInfo =
  info_ID :: PayloadID
  info_Timestamp :: "64 word"

record L2BlockRef =
  ref_Hash :: Hash
  ref_Number :: "64 word"

text \<open>
  The calls made to the collaborators, in the order they are made.
\<close>

datatype call =
    CallForkchoiceUpdate ForkchoiceState "PayloadAttributes option"
  | CallGetPayload PayloadInfo
  | CallNewPayload ExecutionPayload "Hash option"
  | CallCommitUnsafePayload ExecutionPayloadEnvelope
  | CallBuilderGetPayload L2BlockRef
  | CallGossip ExecutionPayloadEnvelope
  | CallClear

fun is_engine_call :: "call \<Rightarrow> bool" where
  "is_engine_call (CallForkchoiceUpdate fc attrs) = True"
| "is_engine_call (CallGetPayload payloadInfo) = True"
| "is_engine_call (CallNewPayload payload root) = True"
| "is_engine_call other = False"

text \<open>
  The execution engine (\<^verbatim>\<open>ExecEngine\<close>), the sequencer conductor and the builder client
  are interfaces; what they answer is not decided by this code. Each is a function of the
  collaborators' own state \<open>'w\<close>, which it may change. An engine call returns a result or an
  error (\<open>Inl\<close>); \<^verbatim>\<open>GetPayload\<close> keeps Go's pair, because the source hands the envelope on
  whatever the error is.

  The \<^verbatim>\<open>select\<close> statement of the race has two cases. The builder goroutine sends its
  result on the channel only if the builder returned no error; on an error it cancels the
  deadline context and sends nothing. \<open>select_Done\<close> tells whether \<^verbatim>\<open>ctxTimeout.Done()\<close> is the case taken
  although a result was sent (the deadline elapsed first, or the caller's context was
  cancelled).
\<close>

record 'w collaborators =
  eng_ForkchoiceUpdate ::
    "'w \<Rightarrow> ForkchoiceState \<Rightarrow> PayloadAttributes option \<Rightarrow> (error + ForkchoiceUpdatedResult) \<times> 'w"
  eng_GetPayload ::
    "'w \<Rightarrow> PayloadInfo \<Rightarrow> (ExecutionPayloadEnvelope option \<times> error option) \<times> 'w"
  eng_NewPayload ::
    "'w \<Rightarrow> ExecutionPayload \<Rightarrow> Hash option \<Rightarrow> (error + PayloadStatusV1) \<times> 'w"
  conductor_CommitUnsafePayload ::
    "'w \<Rightarrow> ExecutionPayloadEnvelope \<Rightarrow> error option \<times> 'w"
  builder_Enabled :: "'w \<Rightarrow> bool"
  builder_GetPayload ::
    "'w \<Rightarrow> L2BlockRef \<Rightarrow> (ExecutionPayloadEnvelope option \<times> int option \<times> error option) \<times> 'w"
  select_Done :: "'w \<Rightarrow> bool"

text \<open>
  The state the operations run in: the collaborators' state, the async gossip cache and the
  calls made so far.

  Modelled from the spec: \<^verbatim>\<open>async.AsyncGossiper\<close> is an interface whose implementation is
  not among the sources at hand. The specification (section 6) gives it as
  \<^verbatim>\<open>gossip(envelope); get() -> envelope?; clear()\<close>, "single-slot, last-write-wins", so the
  cache is one optional envelope.
\<close>

record 'w state =
  world :: 'w
  agossip :: "ExecutionPayloadEnvelope option"
  calls :: "call list"

definition agossip_Get :: "'w state \<Rightarrow> ExecutionPayloadEnvelope option" where
  "agossip_Get s = agossip s"

definition agossip_Gossip :: "ExecutionPayloadEnvelope \<Rightarrow> 'w state \<Rightarrow> 'w state" where
  "agossip_Gossip envelope s = s\<lparr>agossip := Some envelope, calls := calls s @ [CallGossip envelope]\<rparr>"

definition agossip_Clear :: "'w state \<Rightarrow> 'w state" where
  "agossip_Clear s = s\<lparr>agossip := None, calls := calls s @ [CallClear]\<rparr>"

definition call_ForkchoiceUpdate ::
  "'w collaborators \<Rightarrow> ForkchoiceState \<Rightarrow> PayloadAttributes option \<Rightarrow> 'w state
     \<Rightarrow> (error + ForkchoiceUpdatedResult) \<times> 'w state" where
  "call_ForkchoiceUpdate c fc attrs s =
     (case eng_ForkchoiceUpdate c (world s) fc attrs of
        (res, w) \<Rightarrow> (res, s\<lparr>world := w, calls := calls s @ [CallForkchoiceUpdate fc attrs]\<rparr>))"

definition call_GetPayload ::
  "'w collaborators \<Rightarrow> PayloadInfo \<Rightarrow> 'w state
     \<Rightarrow> (ExecutionPayloadEnvelope option \<times> error option) \<times> 'w state" where
  "call_GetPayload c payloadInfo s =
     (case eng_GetPayload c (world s) payloadInfo of
        (res, w) \<Rightarrow> (res, s\<lparr>world := w, calls := calls s @ [CallGetPayload payloadInfo]\<rparr>))"

definition call_NewPayload ::
  "'w collaborators \<Rightarrow> ExecutionPayload \<Rightarrow> Hash option \<Rightarrow> 'w state
     \<Rightarrow> (error + PayloadStatusV1) \<times> 'w state" where
  "call_NewPayload c payload root s =
     (case eng_NewPayload c (world s) payload root of
        (res, w) \<Rightarrow> (res, s\<lparr>world := w, calls := calls s @ [CallNewPayload payload root]\<rparr>))"

definition call_CommitUnsafePayload ::
  "'w collaborators \<Rightarrow> ExecutionPayloadEnvelope \<Rightarrow> 'w state \<Rightarrow> error option \<times> 'w state" where
  "call_CommitUnsafePayload c envelope s =
     (case conductor_CommitUnsafePayload c (world s) envelope of
        (res, w) \<Rightarrow> (res, s\<lparr>world := w, calls := calls s @ [CallCommitUnsafePayload envelope]\<rparr>))"

definition call_builder_GetPayload ::
  "'w collaborators \<Rightarrow> L2BlockRef \<Rightarrow> 'w state
     \<Rightarrow> (ExecutionPayloadEnvelope option \<times> int option \<times> error option) \<times> 'w state" where
  "call_builder_GetPayload c l2head s =
     (case builder_GetPayload c (world s) l2head of
        (res, w) \<Rightarrow> (res, s\<lparr>world := w, calls := calls s @ [CallBuilderGetPayload l2head]\<rparr>))"

text \<open>
  \<^verbatim>\<open>errors.As(err, &inputErr)\<close>: the first \<^verbatim>\<open>eth.InputError\<close> on the chain of wrapped
  errors, as its inner error (\<^verbatim>\<open>inputErr.Unwrap()\<close>) and its code.
\<close>

fun errors_As_InputError :: "error \<Rightarrow> (error \<times> ErrorCode) option" where
  "errors_As_InputError (InputError inner code) = Some (inner, code)"
| "errors_As_InputError (ErrorfW format args err) = errors_As_InputError err"
| "errors_As_InputError err = None"

text \<open>
  Modelled from the spec: \<^verbatim>\<open>eth.NewPayloadErr\<close> and \<^verbatim>\<open>eth.ForkchoiceUpdateErr\<close> are
  helpers of package \<^verbatim>\<open>eth\<close>, not among the sources at hand. They turn a payload status
  into the error returned with a severity, which the specification (section 7) calls the
  "human-readable cause" that every operation returns alongside its severity: an error that
  names the status, and no error for the valid status.
\<close>

definition NewPayloadErr :: "ExecutionPayload \<Rightarrow> PayloadStatusV1 \<Rightarrow> error option" where
  "NewPayloadErr payload payloadStatus =
     (if Status payloadStatus = ExecutionValid then None
      else Some (StatusError ''new payload'' (Status payloadStatus)))"

definition ForkchoiceUpdateErr :: "PayloadStatusV1 \<Rightarrow> error option" where
  "ForkchoiceUpdateErr payloadStatus =
     (if Status payloadStatus = ExecutionValid then None
      else Some (StatusError ''forkchoice update'' (Status payloadStatus)))"

section \<open>Start build\<close>

text \<open>
  \<^verbatim>\<open>startPayload\<close> returns the payload identifier, the severity and the error;
  \<^verbatim>\<open>eth.PayloadID{}\<close> is the zero identifier.
\<close>

definition startPayload ::
  "'w collaborators \<Rightarrow> ForkchoiceState \<Rightarrow> PayloadAttributes option \<Rightarrow> 'w state
     \<Rightarrow> (PayloadID \<times> BlockInsertionErrType \<times> error option) \<times> 'w state" where
  "startPayload c fc attrs s =
     (case call_ForkchoiceUpdate c fc attrs s of
        (Inl err, s1) \<Rightarrow>
          (case errors_As_InputError err of
             Some (inner, code) \<Rightarrow>
               (case code of
                  InvalidForkchoiceState \<Rightarrow>
                    ((0, BlockInsertPrestateErr,
                      Some (ErrorfW ''pre-block-creation forkchoice update was inconsistent with engine, need reset to resolve: %w'' [] inner)), s1)
                | InvalidPayloadAttributes \<Rightarrow>
                    ((0, BlockInsertPayloadErr,
                      Some (ErrorfW ''payload attributes are not valid, cannot build block: %w'' [] inner)), s1)
                | OtherErrorCode n \<Rightarrow>
                    ((0, BlockInsertPrestateErr,
                      Some (ErrorfW ''unexpected error code in forkchoice-updated response: %w'' [] err)), s1))
           | None \<Rightarrow>
               ((0, BlockInsertTemporaryErr,
                 Some (ErrorfW ''failed to create new block via forkchoice: %w'' [] err)), s1))
      | (Inr fcRes, s1) \<Rightarrow>
          (case Status (PayloadStatus fcRes) of
             ExecutionInvalid \<Rightarrow>
               ((0, BlockInsertPayloadErr, ForkchoiceUpdateErr (PayloadStatus fcRes)), s1)
           | ExecutionInvalidBlockHash \<Rightarrow>
               ((0, BlockInsertPayloadErr, ForkchoiceUpdateErr (PayloadStatus fcRes)), s1)
           | ExecutionValid \<Rightarrow>
               (case PayloadID fcRes of
                  None \<Rightarrow>
                    ((0, BlockInsertTemporaryErr,
                      Some (ErrorNew ''nil id in forkchoice result when expecting a valid ID'')), s1)
                | Some pid \<Rightarrow> ((pid, BlockInsertOK, None), s1))
           | ExecutionOtherStatus other \<Rightarrow>
               ((0, BlockInsertTemporaryErr, ForkchoiceUpdateErr (PayloadStatus fcRes)), s1)))"

section \<open>Race coordinator\<close>

text \<open>
  \<^verbatim>\<open>getPayloadWithBuilderPayload\<close> returns the engine's envelope, the builder's envelope,
  the profit and the engine's error. The builder request is started first and the engine
  request is awaited; the \<^verbatim>\<open>select\<close> comes after both. In the channel case the log line
  reads the block hash through the builder's envelope and its payload pointer, and the
  assignment reads the beacon root through the engine's envelope pointer.
\<close>

definition getPayloadWithBuilderPayload ::
  "'w collaborators \<Rightarrow> PayloadInfo \<Rightarrow> L2BlockRef \<Rightarrow> 'w state
     \<Rightarrow> (ExecutionPayloadEnvelope option \<times> ExecutionPayloadEnvelope option
          \<times> int option \<times> error option) outcome \<times> 'w state" where
  "getPayloadWithBuilderPayload c payloadInfo l2head s =
     (if \<not> builder_Enabled c (world s) then
        (case call_GetPayload c payloadInfo s of
           ((payload, err), s1) \<Rightarrow> (Returned (payload, None, None, err), s1))
      else
        (case call_builder_GetPayload c l2head s of
           ((bpayload, profit, berr), s1) \<Rightarrow>
             (case call_GetPayload c payloadInfo s1 of
                ((envelope, err), s2) \<Rightarrow>
                  (case berr of
                     Some builder_err \<Rightarrow> (Returned (envelope, None, None, err), s2)
                   | None \<Rightarrow>
                       if select_Done c (world s2)
                       then (Returned (envelope, None, None, err), s2)
                       else
                         (case bpayload of
                            None \<Rightarrow> (Panic NilDereference, s2)
                          | Some result_envelope \<Rightarrow>
                              (case ExecutionPayload result_envelope of
                                 None \<Rightarrow> (Panic NilDereference, s2)
                               | Some result_payload \<Rightarrow>
                                   (case envelope of
                                      None \<Rightarrow> (Panic NilDereference, s2)
                                    | Some engine_envelope \<Rightarrow>
                                        (Returned
                                           (envelope,
                                            Some (result_envelope
                                               \<lparr>ParentBeaconBlockRoot :=
                                                  ParentBeaconBlockRoot engine_envelope\<rparr>),
                                            profit, err), s2))))))))"

section \<open>Insertion state machine\<close>

text \<open>
  \<^verbatim>\<open>insertPayload\<close> returns the severity and the error. \<^verbatim>\<open>fc\<close> is passed by value, so the
  caller does not see the head and safe hashes written into it.
\<close>

definition insertPayload ::
  "'w collaborators \<Rightarrow> ForkchoiceState \<Rightarrow> bool \<Rightarrow> ExecutionPayloadEnvelope option \<Rightarrow> 'w state
     \<Rightarrow> (BlockInsertionErrType \<times> error option) outcome \<times> 'w state" where
  "insertPayload c fc updateSafe envelope s =
     (case envelope of
        None \<Rightarrow> (Panic NilDereference, s)
      | Some env \<Rightarrow>
          (case sanityCheckPayload (ExecutionPayload env) of
             Panic p \<Rightarrow> (Panic p, s)
           | Returned (Some err) \<Rightarrow> (Returned (BlockInsertPayloadErr, Some err), s)
           | Returned None \<Rightarrow>
               (case call_CommitUnsafePayload c env s of
                  (Some err, s1) \<Rightarrow>
                    (Returned (BlockInsertTemporaryErr,
                       Some (ErrorfW ''failed to commit unsafe payload to conductor: %w'' [] err)), s1)
                | (None, s1) \<Rightarrow>
                    (case ExecutionPayload env of
                       None \<Rightarrow> (Panic NilDereference, s1)
                     | Some payload \<Rightarrow>
                         (case call_NewPayload c payload (ParentBeaconBlockRoot env)
                                 (agossip_Gossip env s1) of
                            (Inl err, s3) \<Rightarrow>
                              (Returned (BlockInsertTemporaryErr,
                                 Some (ErrorfW ''failed to insert execution payload: %w'' [] err)), s3)
                          | (Inr status, s3) \<Rightarrow>
                              if Status status = ExecutionInvalid
                                 \<or> Status status = ExecutionInvalidBlockHash
                              then (Returned (BlockInsertPayloadErr, NewPayloadErr payload status),
                                    agossip_Clear s3)
                              else if Status status \<noteq> ExecutionValid
                              then (Returned (BlockInsertTemporaryErr, NewPayloadErr payload status), s3)
                              else
                                (case call_ForkchoiceUpdate c
                                        (if updateSafe
                                         then fc\<lparr>HeadBlockHash := BlockHash payload,
                                                 SafeBlockHash := BlockHash payload\<rparr>
                                         else fc\<lparr>HeadBlockHash := BlockHash payload\<rparr>)
                                        None s3 of
                                   (Inl err, s4) \<Rightarrow>
                                     (case errors_As_InputError err of
                                        Some (inner, code) \<Rightarrow>
                                          (case code of
                                             InvalidForkchoiceState \<Rightarrow>
                                               (Returned (BlockInsertPayloadErr,
                                                  Some (ErrorfW ''post-block-creation forkchoice update was inconsistent with engine, need reset to resolve: %w'' [] inner)),
                                                agossip_Clear s4)
                                           | InvalidPayloadAttributes \<Rightarrow>
                                               (Returned (BlockInsertPrestateErr,
                                                  Some (ErrorfW ''unexpected error code in forkchoice-updated response: %w'' [] err)),
                                                agossip_Clear s4)
                                           | OtherErrorCode n \<Rightarrow>
                                               (Returned (BlockInsertPrestateErr,
                                                  Some (ErrorfW ''unexpected error code in forkchoice-updated response: %w'' [] err)),
                                                agossip_Clear s4))
                                      | None \<Rightarrow>
                                          (Returned (BlockInsertTemporaryErr,
                                             Some (ErrorfW ''failed to make the new L2 block canonical via forkchoice: %w'' [] err)),
                                           s4))
                                 | (Inr fcRes, s4) \<Rightarrow>
                                     if Status (PayloadStatus fcRes) \<noteq> ExecutionValid
                                     then (Returned (BlockInsertPayloadErr,
                                             ForkchoiceUpdateErr (PayloadStatus fcRes)),
                                           agossip_Clear s4)
                                     else (Returned (BlockInsertOK, None), agossip_Clear s4)))))))"

section \<open>Confirm build\<close>

text \<open>
  The first part of \<^verbatim>\<open>confirmPayload\<close>: the engine's envelope, the builder's envelope and
  the error, from the gossip cache if it holds an envelope (the log line reads the hash
  through its payload pointer) and from the race otherwise.
\<close>

definition confirmPayload_get ::
  "'w collaborators \<Rightarrow> PayloadInfo \<Rightarrow> L2BlockRef \<Rightarrow> 'w state
     \<Rightarrow> (ExecutionPayloadEnvelope option \<times> ExecutionPayloadEnvelope option \<times> error option) outcome
        \<times> 'w state" where
  "confirmPayload_get c payloadInfo l2head s =
     (case agossip_Get s of
        Some cached \<Rightarrow>
          (case ExecutionPayload cached of
             None \<Rightarrow> (Panic NilDereference, s)
           | Some payload \<Rightarrow> (Returned (Some cached, None, None), s))
      | None \<Rightarrow>
          (case getPayloadWithBuilderPayload c payloadInfo l2head s of
             (Panic p, s1) \<Rightarrow> (Panic p, s1)
           | (Returned (engineEnvelope, builderEnvelope, profit, err), s1) \<Rightarrow>
               (Returned (engineEnvelope, builderEnvelope, err), s1)))"

text \<open>
  The last two lines of \<^verbatim>\<open>confirmPayload\<close>: the engine's envelope is inserted and returned
  with the severity and error of that insertion.
\<close>

definition confirmPayload_engine ::
  "'w collaborators \<Rightarrow> ForkchoiceState \<Rightarrow> bool \<Rightarrow> ExecutionPayloadEnvelope option \<Rightarrow> 'w state
     \<Rightarrow> (ExecutionPayloadEnvelope option \<times> BlockInsertionErrType \<times> error option) outcome
        \<times> 'w state" where
  "confirmPayload_engine c fc updateSafe engineEnvelope s =
     (case insertPayload c fc updateSafe engineEnvelope s of
        (Panic p, s1) \<Rightarrow> (Panic p, s1)
      | (Returned (errType, err), s1) \<Rightarrow> (Returned (engineEnvelope, errType, err), s1))"

definition confirmPayload ::
  "'w collaborators \<Rightarrow> ForkchoiceState \<Rightarrow> PayloadInfo \<Rightarrow> bool \<Rightarrow> L2BlockRef \<Rightarrow> 'w state
     \<Rightarrow> (ExecutionPayloadEnvelope option \<times> BlockInsertionErrType \<times> error option) outcome
        \<times> 'w state" where
  "confirmPayload c fc payloadInfo updateSafe l2head s =
     (case confirmPayload_get c payloadInfo l2head s of
        (Panic p, s1) \<Rightarrow> (Panic p, s1)
      | (Returned (engineEnvelope, builderEnvelope, Some err), s1) \<Rightarrow>
          (Returned (None, BlockInsertTemporaryErr,
             Some (ErrorfW ''failed to get execution payload: %w'' [] err)), s1)
      | (Returned (engineEnvelope, builderEnvelope, None), s1) \<Rightarrow>
          (case builderEnvelope of
             None \<Rightarrow> confirmPayload_engine c fc updateSafe engineEnvelope s1
           | Some b \<Rightarrow>
               (case insertPayload c fc updateSafe builderEnvelope s1 of
                  (Panic p, s2) \<Rightarrow> (Panic p, s2)
                | (Returned (errTyp, None), s2) \<Rightarrow> (Returned (builderEnvelope, errTyp, None), s2)
                | (Returned (errTyp, Some e), s2) \<Rightarrow>
                    confirmPayload_engine c fc updateSafe engineEnvelope s2)))"

section \<open>Scripted collaborators\<close>

text \<open>
  Collaborators with fixed answers, for running the operations on concrete inputs. Their
  state counts the calls answered. The engine's answer to \<^verbatim>\<open>NewPayload\<close> and the
  conductor's answer may depend on the payload and the envelope they are given.
\<close>

definition scripted ::
  "(error + ForkchoiceUpdatedResult) \<Rightarrow> (ExecutionPayloadEnvelope option \<times> error option)
     \<Rightarrow> (ExecutionPayload \<Rightarrow> error + PayloadStatusV1) \<Rightarrow> (ExecutionPayloadEnvelope \<Rightarrow> error option)
     \<Rightarrow> bool \<Rightarrow> (ExecutionPayloadEnvelope option \<times> int option \<times> error option) \<Rightarrow> bool
     \<Rightarrow> nat collaborators" where
  "scripted fcu gp np cm en bgp sd =
     \<lparr>eng_ForkchoiceUpdate = (\<lambda>w fc attrs. (fcu, Suc w)),
      eng_GetPayload = (\<lambda>w payloadInfo. (gp, Suc w)),
      eng_NewPayload = (\<lambda>w payload root. (np payload, Suc w)),
      conductor_CommitUnsafePayload = (\<lambda>w envelope. (cm envelope, Suc w)),
      builder_Enabled = (\<lambda>w. en),
      builder_GetPayload = (\<lambda>w l2head. (bgp, Suc w)),
      select_Done = (\<lambda>w. sd)\<rparr>"

definition initial_state :: "nat state" where
  "initial_state = \<lparr>world = 0, agossip = None, calls = []\<rparr>"

text \<open>
  A payload with the transactions \<open>[D, D, N, N]\<close> and the block hash given, the envelope of
  the engine around it, and the envelope of a builder, which carries a beacon root of its
  own.
\<close>

definition example_payload :: "Hash \<Rightarrow> ExecutionPayload" where
  "example_payload h =
     \<lparr>ParentHash = 0x10, BlockNumber = 7, Timestamp = 1700000000, BlockHash = h,
      Transactions = [[0x7E, 1], [0x7E, 2], [0x02, 3], [0x02, 4]]\<rparr>"

definition example_engine_envelope :: ExecutionPayloadEnvelope where
  "example_engine_envelope =
     \<lparr>ParentBeaconBlockRoot = Some 0xBEAC, ExecutionPayload = Some (example_payload 0xE1)\<rparr>"

definition example_builder_envelope :: ExecutionPayloadEnvelope where
  "example_builder_envelope =
     \<lparr>ParentBeaconBlockRoot = Some 0xBAD, ExecutionPayload = Some (example_payload 0xB1)\<rparr>"

definition example_fc :: ForkchoiceState where
  "example_fc = \<lparr>HeadBlockHash = 0x10, SafeBlockHash = 0x0F, FinalizedBlockHash = 0x0E\<rparr>"

definition example_info :: PayloadInfo where
  "example_info = \<lparr>info_ID = 0xABC, info_Timestamp = 1700000000\<rparr>"

definition example_head :: L2BlockRef where
  "example_head = \<lparr>ref_Hash = 0x10, ref_Number = 6\<rparr>"

definition status_of :: "ExecutePayloadStatus \<Rightarrow> PayloadStatusV1" where
  "status_of st = \<lparr>Status = st, LatestValidHash = None\<rparr>"

section \<open>Properties of the validator\<close>

lemma isDepositTx_Nil: "isDepositTx [] = Inl (ErrorNew ''empty transaction'')"
  by (simp add: isDepositTx_def)

lemma isDepositTx_Cons: "isDepositTx (b # bs) = Inr (b = DepositTxType)"
  by (simp add: isDepositTx_def)

lemma isDepositTx_privileged:
  "tx \<noteq> [] \<Longrightarrow> isDepositTx tx = Inr (is_privileged tx)"
  by (cases tx) (simp_all add: isDepositTx_Cons is_privileged_def)

lemma spec_privileged_prefix_split:
  "spec_privileged_prefix txs \<longleftrightarrow>
     (\<exists>ds ns. txs = ds @ ns \<and> (\<forall>t \<in> set ds. is_privileged t) \<and> (\<forall>t \<in> set ns. \<not> is_privileged t))"
proof
  assume "spec_privileged_prefix txs"
  then have "\<forall>t \<in> set (dropWhile is_privileged txs). \<not> is_privileged t"
    by (simp add: spec_privileged_prefix_def list_all_iff)
  moreover have "\<forall>t \<in> set (takeWhile is_privileged txs). is_privileged t"
    by (auto dest: set_takeWhileD)
  moreover have "txs = takeWhile is_privileged txs @ dropWhile is_privileged txs"
    by simp
  ultimately show "\<exists>ds ns. txs = ds @ ns \<and> (\<forall>t \<in> set ds. is_privileged t)
      \<and> (\<forall>t \<in> set ns. \<not> is_privileged t)"
    by blast
next
  assume "\<exists>ds ns. txs = ds @ ns \<and> (\<forall>t \<in> set ds. is_privileged t)
      \<and> (\<forall>t \<in> set ns. \<not> is_privileged t)"
  then obtain ds ns where s: "txs = ds @ ns" and d: "\<forall>t \<in> set ds. is_privileged t"
    and n: "\<forall>t \<in> set ns. \<not> is_privileged t"
    by blast
  have "dropWhile is_privileged txs = ns"
  proof (cases ns)
    case Nil
    with s d show ?thesis by simp
  next
    case (Cons a as)
    with n have "\<not> is_privileged a" by simp
    with s d Cons show ?thesis by (simp add: dropWhile_append3)
  qed
  with n show "spec_privileged_prefix txs"
    by (simp add: spec_privileged_prefix_def list_all_iff)
qed

declare sanityCheckPayload_loop.simps [simp del]

lemma is_privileged_nonempty: "is_privileged tx \<Longrightarrow> tx \<noteq> []"
  by (auto simp: is_privileged_def)

lemma lastDeposit_loop_privileged:
  "\<forall>t \<in> set ds. is_privileged t \<Longrightarrow> ds \<noteq> [] \<Longrightarrow>
     lastDeposit_loop (ds @ rest) i l = lastDeposit_loop rest (i + length ds) (i + length ds - 1)"
proof (induction ds arbitrary: i l)
  case Nil
  then show ?case by simp
next
  case (Cons d ds)
  have d: "isDepositTx d = Inr True"
    using Cons.prems(1) by (simp add: isDepositTx_privileged is_privileged_nonempty)
  show ?case
  proof (cases "ds = []")
    case True
    with d show ?thesis by simp
  next
    case False
    with Cons.IH [of "i + 1" i] Cons.prems(1) d show ?thesis by simp
  qed
qed

lemma lastDeposit_loop_stop:
  "\<not> is_privileged t \<Longrightarrow>
     lastDeposit_loop (t # rest) i l =
       (if t = [] then Inl (Errorf ''invalid transaction at idx %d'' [int i]) else Inr l)"
  by (cases t) (simp_all add: isDepositTx_Nil isDepositTx_Cons is_privileged_def)

lemma sanityCheckPayload_loop_None:
  "sanityCheckPayload_loop txs l i = None \<longleftrightarrow>
     (\<forall>j. i \<le> j \<and> j < length txs \<longrightarrow> txs ! j \<noteq> [] \<and> \<not> is_privileged (txs ! j))"
proof (induction txs l i rule: sanityCheckPayload_loop.induct)
  case (1 txs l i)
  show ?case
  proof (cases "i < length txs")
    case False
    then show ?thesis by (subst sanityCheckPayload_loop.simps) auto
  next
    case True
    show ?thesis
    proof (cases "txs ! i = []")
      case True
      with \<open>i < length txs\<close> show ?thesis
        by (subst sanityCheckPayload_loop.simps) (auto simp: isDepositTx_Nil)
    next
      case False
      then have dep: "isDepositTx (txs ! i) = Inr (is_privileged (txs ! i))"
        by (rule isDepositTx_privileged)
      show ?thesis
      proof (cases "is_privileged (txs ! i)")
        case True
        with dep \<open>i < length txs\<close> show ?thesis
          by (subst sanityCheckPayload_loop.simps) auto
      next
        case np: False
        have step: "sanityCheckPayload_loop txs l i = sanityCheckPayload_loop txs l (i + 1)"
          using dep np \<open>i < length txs\<close> by (subst sanityCheckPayload_loop.simps) simp
        have ih: "sanityCheckPayload_loop txs l (i + 1) = None \<longleftrightarrow>
            (\<forall>j. i + 1 \<le> j \<and> j < length txs \<longrightarrow> txs ! j \<noteq> [] \<and> \<not> is_privileged (txs ! j))"
          using "1.IH" [OF \<open>i < length txs\<close> dep] np by simp
        have "(\<forall>j. i \<le> j \<and> j < length txs \<longrightarrow> txs ! j \<noteq> [] \<and> \<not> is_privileged (txs ! j)) \<longleftrightarrow>
            (\<forall>j. i + 1 \<le> j \<and> j < length txs \<longrightarrow> txs ! j \<noteq> [] \<and> \<not> is_privileged (txs ! j))"
        proof
          assume a: "\<forall>j. i \<le> j \<and> j < length txs \<longrightarrow> txs ! j \<noteq> [] \<and> \<not> is_privileged (txs ! j)"
          show "\<forall>j. i + 1 \<le> j \<and> j < length txs \<longrightarrow> txs ! j \<noteq> [] \<and> \<not> is_privileged (txs ! j)"
            using a by auto
        next
          assume a: "\<forall>j. i + 1 \<le> j \<and> j < length txs \<longrightarrow> txs ! j \<noteq> [] \<and> \<not> is_privileged (txs ! j)"
          show "\<forall>j. i \<le> j \<and> j < length txs \<longrightarrow> txs ! j \<noteq> [] \<and> \<not> is_privileged (txs ! j)"
          proof (intro allI impI)
            fix j assume j: "i \<le> j \<and> j < length txs"
            show "txs ! j \<noteq> [] \<and> \<not> is_privileged (txs ! j)"
            proof (cases "j = i")
              case True
              with False np show ?thesis by simp
            next
              case False
              with j a show ?thesis by auto
            qed
          qed
        qed
        with step ih show ?thesis by simp
      qed
    qed
  qed
qed

lemma sanityCheckPayload_loop_drop:
  "sanityCheckPayload_loop txs l i = None \<longleftrightarrow>
     (\<forall>t \<in> set (drop i txs). t \<noteq> [] \<and> \<not> is_privileged t)"
proof -
  have "(\<forall>t \<in> set (drop i txs). t \<noteq> [] \<and> \<not> is_privileged t) \<longleftrightarrow>
     (\<forall>j. i \<le> j \<and> j < length txs \<longrightarrow> txs ! j \<noteq> [] \<and> \<not> is_privileged (txs ! j))"
  proof
    assume a: "\<forall>t \<in> set (drop i txs). t \<noteq> [] \<and> \<not> is_privileged t"
    show "\<forall>j. i \<le> j \<and> j < length txs \<longrightarrow> txs ! j \<noteq> [] \<and> \<not> is_privileged (txs ! j)"
    proof (intro allI impI)
      fix j assume j: "i \<le> j \<and> j < length txs"
      then have "txs ! j = drop i txs ! (j - i)" and "j - i < length (drop i txs)"
        by auto
      then have "txs ! j \<in> set (drop i txs)"
        by (metis nth_mem)
      with a show "txs ! j \<noteq> [] \<and> \<not> is_privileged (txs ! j)" by blast
    qed
  next
    assume a: "\<forall>j. i \<le> j \<and> j < length txs \<longrightarrow> txs ! j \<noteq> [] \<and> \<not> is_privileged (txs ! j)"
    show "\<forall>t \<in> set (drop i txs). t \<noteq> [] \<and> \<not> is_privileged t"
    proof
      fix t assume "t \<in> set (drop i txs)"
      then obtain k where k: "k < length (drop i txs)" "drop i txs ! k = t"
        by (auto simp: in_set_conv_nth)
      then have "i + k < length txs" "txs ! (i + k) = t" by simp_all
      with a [rule_format, of "i + k"] show "t \<noteq> [] \<and> \<not> is_privileged t" by simp
    qed
  qed
  then show ?thesis by (simp add: sanityCheckPayload_loop_None)
qed


lemma sanityCheckPayload_privileged_first:
  assumes ne: "Transactions payload \<noteq> []" and p: "is_privileged (hd (Transactions payload))"
  shows "sanityCheckPayload (Some payload) = Returned None \<longleftrightarrow>
     (\<forall>t \<in> set (dropWhile is_privileged (Transactions payload)). t \<noteq> [] \<and> \<not> is_privileged t)"
proof -
  define txs where "txs = Transactions payload"
  define ds where "ds = takeWhile is_privileged txs"
  define ns where "ns = dropWhile is_privileged txs"
  have split: "txs = ds @ ns" by (simp add: ds_def ns_def)
  from ne p have hd_ds: "ds \<noteq> []"
    by (cases txs) (simp_all add: ds_def txs_def)
  have all_ds: "\<forall>t \<in> set ds. is_privileged t"
    by (auto simp: ds_def dest: set_takeWhileD)
  have first: "txs ! 0 \<noteq> []" "txs ! 0 ! 0 = DepositTxType"
    using ne p by (cases txs; cases "hd txs"; simp add: txs_def is_privileged_def)+
  have sc: "sanityCheckPayload (Some payload) =
      (case lastDeposit txs of
         Inl err \<Rightarrow> Returned (Some (ErrorfW ''failed to find last deposit: %w'' [] err))
       | Inr lastDep \<Rightarrow> Returned (sanityCheckPayload_loop txs lastDep (lastDep + 1)))"
    using ne first unfolding txs_def by (simp add: sanityCheckPayload_def)
  have ld: "lastDeposit txs = lastDeposit_loop ns (length ds) (length ds - 1)"
    using lastDeposit_loop_privileged [OF all_ds hd_ds, of ns 0 0]
    by (simp add: lastDeposit_def split)
  have drop_ns: "drop (length ds) txs = ns" by (simp add: split)
  from hd_ds have suc: "length ds - 1 + 1 = length ds" by (cases ds) simp_all
  show ?thesis
  proof (cases ns)
    case Nil
    with ld have "lastDeposit txs = Inr (length ds - 1)" by simp
    with sc suc drop_ns Nil show ?thesis
      by (simp add: sanityCheckPayload_loop_drop ns_def txs_def)
  next
    case (Cons t ns')
    then have np: "\<not> is_privileged t"
      using dropWhile_eq_Cons_conv [of is_privileged txs t ns'] by (simp add: ns_def)
    have stop: "lastDeposit txs =
        (if t = [] then Inl (Errorf ''invalid transaction at idx %d'' [int (length ds)])
         else Inr (length ds - 1))"
      unfolding ld Cons by (rule lastDeposit_loop_stop [OF np])
    show ?thesis
    proof (cases "t = []")
      case True
      with stop have "lastDeposit txs = Inl (Errorf ''invalid transaction at idx %d'' [int (length ds)])"
        by simp
      with sc Cons True show ?thesis
        using ns_def txs_def by auto
    next
      case False
      with stop have "lastDeposit txs = Inr (length ds - 1)"
        by simp
      with sc suc drop_ns show ?thesis
        by (simp add: sanityCheckPayload_loop_drop ns_def txs_def)
    qed
  qed
qed

lemma sanityCheckPayload_first_not_privileged:
  assumes ne: "Transactions payload \<noteq> []" and p: "\<not> is_privileged (hd (Transactions payload))"
  shows "sanityCheckPayload (Some payload) \<noteq> Returned None"
proof (cases "Transactions payload")
  case Nil
  with ne show ?thesis by simp
next
  case (Cons t ts)
  with p show ?thesis
    by (cases t) (simp_all add: sanityCheckPayload_def is_privileged_def)
qed

text \<open>
  Claim C1, as the code has it: the validator accepts a payload if and only if its
  transaction list is not empty, no transaction is the empty byte string, the first
  transaction is privileged (so the privileged prefix is not empty) and no privileged
  transaction comes after one that is not privileged; the empty list is rejected with the
  error "no transactions in returned payload".
\<close>

theorem sanityCheckPayload_accepts_iff:
  "(sanityCheckPayload (Some payload) = Returned None \<longleftrightarrow>
      Transactions payload \<noteq> [] \<and> [] \<notin> set (Transactions payload)
      \<and> is_privileged (hd (Transactions payload))
      \<and> spec_privileged_prefix (Transactions payload))
   \<and> (Transactions payload = [] \<longrightarrow>
        sanityCheckPayload (Some payload) =
          Returned (Some (ErrorNew ''no transactions in returned payload'')))"
proof (intro conjI impI)
  assume "Transactions payload = []"
  then show "sanityCheckPayload (Some payload) =
      Returned (Some (ErrorNew ''no transactions in returned payload''))"
    by (simp add: sanityCheckPayload_def)
next
  define txs where "txs = Transactions payload"
  have set_split: "set txs = set (takeWhile is_privileged txs) \<union> set (dropWhile is_privileged txs)"
    by (metis set_append takeWhile_dropWhile_id)
  have tw: "[] \<notin> set (takeWhile is_privileged txs)"
    by (auto dest: set_takeWhileD is_privileged_nonempty)
  show "sanityCheckPayload (Some payload) = Returned None \<longleftrightarrow>
      Transactions payload \<noteq> [] \<and> [] \<notin> set (Transactions payload)
      \<and> is_privileged (hd (Transactions payload))
      \<and> spec_privileged_prefix (Transactions payload)"
  proof (cases "Transactions payload = []")
    case True
    then show ?thesis by (simp add: sanityCheckPayload_def)
  next
    case ne: False
    show ?thesis
    proof (cases "is_privileged (hd (Transactions payload))")
      case False
      with ne sanityCheckPayload_first_not_privileged show ?thesis by blast
    next
      case True
      have "(\<forall>t \<in> set (dropWhile is_privileged txs). t \<noteq> [] \<and> \<not> is_privileged t) \<longleftrightarrow>
          [] \<notin> set txs \<and> spec_privileged_prefix txs"
        using set_split tw by (auto simp: spec_privileged_prefix_def list_all_iff)
      with ne True sanityCheckPayload_privileged_first [OF ne True] show ?thesis
        by (simp add: txs_def)
    qed
  qed
qed

text \<open>
  The characterisation at the specification's example \<open>[D, D, N, N]\<close> and at the empty list.
\<close>

theorem sanityCheckPayload_accepts_iff_witness:
  "sanityCheckPayload
     (Some \<lparr>ParentHash = 0, BlockNumber = 1, Timestamp = 2, BlockHash = 3,
            Transactions = [[0x7E], [0x7E, 1], [2], [2, 0x7E]]\<rparr>) = Returned None
   \<and> sanityCheckPayload
       (Some \<lparr>ParentHash = 0, BlockNumber = 1, Timestamp = 2, BlockHash = 3, Transactions = []\<rparr>)
     = Returned (Some (ErrorNew ''no transactions in returned payload''))"
  using sanityCheckPayload_accepts_iff
      [of "\<lparr>ParentHash = 0, BlockNumber = 1, Timestamp = 2, BlockHash = 3,
            Transactions = [[0x7E], [0x7E, 1], [2], [2, 0x7E]]\<rparr>"]
    sanityCheckPayload_accepts_iff
      [of "\<lparr>ParentHash = 0, BlockNumber = 1, Timestamp = 2, BlockHash = 3, Transactions = []\<rparr>"]
  by (simp add: spec_privileged_prefix_def is_privileged_def DepositTxType_def)

text \<open>
  Claim C1 as stated fails: in the one-element list \<open>[N]\<close> the privileged transactions form
  the empty prefix and none follows a transaction that is not privileged, yet the validator
  rejects it, because its first transaction is not a deposit. In \<open>[D, empty, N]\<close> the
  privileged transactions form the prefix \<open>[D]\<close>, and the validator rejects the list
  because of the empty transaction.
\<close>

theorem sanityCheckPayload_empty_prefix_rejected:
  "spec_privileged_prefix [[0x02]]
   \<and> sanityCheckPayload
       (Some \<lparr>ParentHash = 0, BlockNumber = 1, Timestamp = 2, BlockHash = 3,
              Transactions = [[0x02]]\<rparr>)
     = Returned (Some (Errorf ''first transaction was not deposit tx. Got %v'' [2]))
   \<and> spec_privileged_prefix [[0x7E], [], [0x02]]
   \<and> sanityCheckPayload
       (Some \<lparr>ParentHash = 0, BlockNumber = 1, Timestamp = 2, BlockHash = 3,
              Transactions = [[0x7E], [], [0x02]]\<rparr>)
     = Returned (Some (ErrorfW ''failed to find last deposit: %w'' []
                         (Errorf ''invalid transaction at idx %d'' [1])))"
  by (simp add: spec_privileged_prefix_def is_privileged_def DepositTxType_def
      sanityCheckPayload_def lastDeposit_def isDepositTx_def)

text \<open>
  Claim C9 says that the validator returns acceptance or a validation error for every
  non-empty transaction list, also when the first transaction is the empty byte string. On
  the list whose only transaction is empty, \<^verbatim>\<open>payload.Transactions[0][0]\<close> is an index out
  of range and the validator panics.
\<close>

theorem sanityCheckPayload_empty_first_tx_panics:
  "sanityCheckPayload
     (Some \<lparr>ParentHash = 0, BlockNumber = 1, Timestamp = 2, BlockHash = 3,
            Transactions = [[]]\<rparr>) = Panic IndexOutOfRange"
  by (simp add: sanityCheckPayload_def)

section \<open>Properties of the insertion state machine\<close>

lemma insertPayload_nil:
  "insertPayload c fc updateSafe None s = (Panic NilDereference, s)"
  by (simp add: insertPayload_def)

lemma insertPayload_validator_panics:
  "sanityCheckPayload (ExecutionPayload env) = Panic p \<Longrightarrow>
     insertPayload c fc updateSafe (Some env) s = (Panic p, s)"
  by (simp add: insertPayload_def)

lemma insertPayload_validator_rejects:
  "sanityCheckPayload (ExecutionPayload env) = Returned (Some err) \<Longrightarrow>
     insertPayload c fc updateSafe (Some env) s = (Returned (BlockInsertPayloadErr, Some err), s)"
  by (simp add: insertPayload_def)

lemma sanityCheckPayload_accepted_payload:
  "sanityCheckPayload p = Returned None \<Longrightarrow> \<exists>payload. p = Some payload"
  by (cases p) (simp_all add: sanityCheckPayload_def)

lemma insertPayload_commit_failed:
  assumes env: "ExecutionPayload env = Some payload"
    and sane: "sanityCheckPayload (Some payload) = Returned None"
    and commit: "conductor_CommitUnsafePayload c (world s) env = (Some err, w1)"
  shows "insertPayload c fc updateSafe (Some env) s =
     (Returned (BlockInsertTemporaryErr,
        Some (ErrorfW ''failed to commit unsafe payload to conductor: %w'' [] err)),
      s\<lparr>world := w1, calls := calls s @ [CallCommitUnsafePayload env]\<rparr>)"
  using env sane commit by (simp add: insertPayload_def call_CommitUnsafePayload_def)

lemma insertPayload_NewPayload_failed:
  assumes env: "ExecutionPayload env = Some payload"
    and sane: "sanityCheckPayload (Some payload) = Returned None"
    and commit: "conductor_CommitUnsafePayload c (world s) env = (None, w1)"
    and newp: "eng_NewPayload c w1 payload (ParentBeaconBlockRoot env) = (Inl err, w2)"
  shows "insertPayload c fc updateSafe (Some env) s =
     (Returned (BlockInsertTemporaryErr,
        Some (ErrorfW ''failed to insert execution payload: %w'' [] err)),
      s\<lparr>world := w2, agossip := Some env,
        calls := calls s @ [CallCommitUnsafePayload env, CallGossip env,
          CallNewPayload payload (ParentBeaconBlockRoot env)]\<rparr>)"
  using env sane commit newp
  by (simp add: insertPayload_def call_CommitUnsafePayload_def call_NewPayload_def
      agossip_Gossip_def)

lemma insertPayload_NewPayload_invalid:
  assumes env: "ExecutionPayload env = Some payload"
    and sane: "sanityCheckPayload (Some payload) = Returned None"
    and commit: "conductor_CommitUnsafePayload c (world s) env = (None, w1)"
    and newp: "eng_NewPayload c w1 payload (ParentBeaconBlockRoot env) = (Inr status, w2)"
    and st: "Status status = ExecutionInvalid \<or> Status status = ExecutionInvalidBlockHash"
  shows "insertPayload c fc updateSafe (Some env) s =
     (Returned (BlockInsertPayloadErr, NewPayloadErr payload status),
      s\<lparr>world := w2, agossip := None,
        calls := calls s @ [CallCommitUnsafePayload env, CallGossip env,
          CallNewPayload payload (ParentBeaconBlockRoot env), CallClear]\<rparr>)"
  using env sane commit newp st
  by (simp add: insertPayload_def call_CommitUnsafePayload_def call_NewPayload_def
      agossip_Gossip_def agossip_Clear_def)

lemma insertPayload_NewPayload_undecided:
  assumes env: "ExecutionPayload env = Some payload"
    and sane: "sanityCheckPayload (Some payload) = Returned None"
    and commit: "conductor_CommitUnsafePayload c (world s) env = (None, w1)"
    and newp: "eng_NewPayload c w1 payload (ParentBeaconBlockRoot env) = (Inr status, w2)"
    and st: "Status status \<noteq> ExecutionValid" "Status status \<noteq> ExecutionInvalid"
      "Status status \<noteq> ExecutionInvalidBlockHash"
  shows "insertPayload c fc updateSafe (Some env) s =
     (Returned (BlockInsertTemporaryErr, NewPayloadErr payload status),
      s\<lparr>world := w2, agossip := Some env,
        calls := calls s @ [CallCommitUnsafePayload env, CallGossip env,
          CallNewPayload payload (ParentBeaconBlockRoot env)]\<rparr>)"
  using env sane commit newp st
  by (simp add: insertPayload_def call_CommitUnsafePayload_def call_NewPayload_def
      agossip_Gossip_def)

text \<open>
  The forkchoice state of the second forkchoice update: the head is the payload's block, and
  so is the safe head if the caller asked for it.
\<close>

lemma insertPayload_forkchoice_failed:
  assumes env: "ExecutionPayload env = Some payload"
    and sane: "sanityCheckPayload (Some payload) = Returned None"
    and commit: "conductor_CommitUnsafePayload c (world s) env = (None, w1)"
    and newp: "eng_NewPayload c w1 payload (ParentBeaconBlockRoot env) = (Inr status, w2)"
    and st: "Status status = ExecutionValid"
    and fcu: "eng_ForkchoiceUpdate c w2
        (if updateSafe
         then fc\<lparr>HeadBlockHash := BlockHash payload, SafeBlockHash := BlockHash payload\<rparr>
         else fc\<lparr>HeadBlockHash := BlockHash payload\<rparr>) None = (Inl err, w3)"
  shows "insertPayload c fc updateSafe (Some env) s =
     (case errors_As_InputError err of
        None \<Rightarrow>
          (Returned (BlockInsertTemporaryErr,
             Some (ErrorfW ''failed to make the new L2 block canonical via forkchoice: %w'' [] err)),
           s\<lparr>world := w3, agossip := Some env,
             calls := calls s @ [CallCommitUnsafePayload env, CallGossip env,
               CallNewPayload payload (ParentBeaconBlockRoot env),
               CallForkchoiceUpdate
                 (if updateSafe
                  then fc\<lparr>HeadBlockHash := BlockHash payload, SafeBlockHash := BlockHash payload\<rparr>
                  else fc\<lparr>HeadBlockHash := BlockHash payload\<rparr>) None]\<rparr>)
      | Some (inner, code) \<Rightarrow>
          (Returned
             (if code = InvalidForkchoiceState
              then (BlockInsertPayloadErr,
                    Some (ErrorfW ''post-block-creation forkchoice update was inconsistent with engine, need reset to resolve: %w'' [] inner))
              else (BlockInsertPrestateErr,
                    Some (ErrorfW ''unexpected error code in forkchoice-updated response: %w'' [] err))),
           s\<lparr>world := w3, agossip := None,
             calls := calls s @ [CallCommitUnsafePayload env, CallGossip env,
               CallNewPayload payload (ParentBeaconBlockRoot env),
               CallForkchoiceUpdate
                 (if updateSafe
                  then fc\<lparr>HeadBlockHash := BlockHash payload, SafeBlockHash := BlockHash payload\<rparr>
                  else fc\<lparr>HeadBlockHash := BlockHash payload\<rparr>) None,
               CallClear]\<rparr>))"
proof (cases "errors_As_InputError err")
  case None
  with env sane commit newp st fcu show ?thesis
    by (simp add: insertPayload_def call_CommitUnsafePayload_def call_NewPayload_def
        call_ForkchoiceUpdate_def agossip_Gossip_def)
next
  case (Some ic)
  obtain inner code where ic: "ic = (inner, code)" by (cases ic)
  show ?thesis
  proof (cases code)
    case InvalidForkchoiceState
    with Some ic env sane commit newp st fcu show ?thesis
      by (simp add: insertPayload_def call_CommitUnsafePayload_def call_NewPayload_def
          call_ForkchoiceUpdate_def agossip_Gossip_def agossip_Clear_def)
  next
    case InvalidPayloadAttributes
    with Some ic env sane commit newp st fcu show ?thesis
      by (simp add: insertPayload_def call_CommitUnsafePayload_def call_NewPayload_def
          call_ForkchoiceUpdate_def agossip_Gossip_def agossip_Clear_def)
  next
    case (OtherErrorCode n)
    with Some ic env sane commit newp st fcu show ?thesis
      by (simp add: insertPayload_def call_CommitUnsafePayload_def call_NewPayload_def
          call_ForkchoiceUpdate_def agossip_Gossip_def agossip_Clear_def)
  qed
qed

lemma insertPayload_forkchoice_answered:
  assumes env: "ExecutionPayload env = Some payload"
    and sane: "sanityCheckPayload (Some payload) = Returned None"
    and commit: "conductor_CommitUnsafePayload c (world s) env = (None, w1)"
    and newp: "eng_NewPayload c w1 payload (ParentBeaconBlockRoot env) = (Inr status, w2)"
    and st: "Status status = ExecutionValid"
    and fcu: "eng_ForkchoiceUpdate c w2
        (if updateSafe
         then fc\<lparr>HeadBlockHash := BlockHash payload, SafeBlockHash := BlockHash payload\<rparr>
         else fc\<lparr>HeadBlockHash := BlockHash payload\<rparr>) None = (Inr fcRes, w3)"
  shows "insertPayload c fc updateSafe (Some env) s =
     (Returned
        (if Status (PayloadStatus fcRes) \<noteq> ExecutionValid
         then (BlockInsertPayloadErr, ForkchoiceUpdateErr (PayloadStatus fcRes))
         else (BlockInsertOK, None)),
      s\<lparr>world := w3, agossip := None,
        calls := calls s @ [CallCommitUnsafePayload env, CallGossip env,
          CallNewPayload payload (ParentBeaconBlockRoot env),
          CallForkchoiceUpdate
            (if updateSafe
             then fc\<lparr>HeadBlockHash := BlockHash payload, SafeBlockHash := BlockHash payload\<rparr>
             else fc\<lparr>HeadBlockHash := BlockHash payload\<rparr>) None,
          CallClear]\<rparr>)"
  using env sane commit newp st fcu
  by (simp add: insertPayload_def call_CommitUnsafePayload_def call_NewPayload_def
      call_ForkchoiceUpdate_def agossip_Gossip_def agossip_Clear_def)


lemma insertPayload_OK_iff_nil:
  assumes run: "insertPayload c fc updateSafe envelope s = (Returned (t, err), s')"
  shows "(t = BlockInsertOK) = (err = None)"
proof (cases envelope)
  case None
  with run show ?thesis by (simp add: insertPayload_nil)
next
  case (Some env)
  show ?thesis
  proof (cases "sanityCheckPayload (ExecutionPayload env)")
    case (Panic p)
    with run Some show ?thesis by (simp add: insertPayload_validator_panics)
  next
    case (Returned r)
    show ?thesis
    proof (cases r)
      case (Some e)
      with run \<open>envelope = Some env\<close> Returned show ?thesis
        by (auto simp: insertPayload_validator_rejects)
    next
      case None
      with Returned obtain payload where env: "ExecutionPayload env = Some payload"
        using sanityCheckPayload_accepted_payload by blast
      with Returned None have sane: "sanityCheckPayload (Some payload) = Returned None"
        by simp
      obtain cr w1 where commit: "conductor_CommitUnsafePayload c (world s) env = (cr, w1)"
        by (cases "conductor_CommitUnsafePayload c (world s) env")
      show ?thesis
      proof (cases cr)
        case (Some e)
        with run \<open>envelope = Some env\<close> insertPayload_commit_failed [OF env sane, of c s e w1 fc updateSafe]
          commit show ?thesis by auto
      next
        case cn: None
        note commit = commit [unfolded cn]
        obtain nr w2 where newp: "eng_NewPayload c w1 payload (ParentBeaconBlockRoot env) = (nr, w2)"
          by (cases "eng_NewPayload c w1 payload (ParentBeaconBlockRoot env)")
        show ?thesis
        proof (cases nr)
          case (Inl e)
          with run \<open>envelope = Some env\<close>
            insertPayload_NewPayload_failed [OF env sane commit, of e w2 fc updateSafe] newp
          show ?thesis by auto
        next
          case (Inr status)
          note newp = newp [unfolded Inr]
          consider (invalid) "Status status = ExecutionInvalid \<or> Status status = ExecutionInvalidBlockHash"
            | (undecided) "Status status \<noteq> ExecutionValid" "Status status \<noteq> ExecutionInvalid"
                "Status status \<noteq> ExecutionInvalidBlockHash"
            | (valid) "Status status = ExecutionValid"
            by blast
          then show ?thesis
          proof cases
            case invalid
            from run \<open>envelope = Some env\<close>
              insertPayload_NewPayload_invalid [OF env sane commit newp invalid, of fc updateSafe]
            have "t = BlockInsertPayloadErr" "err = NewPayloadErr payload status" by simp_all
            with invalid show ?thesis by (auto simp: NewPayloadErr_def)
          next
            case undecided
            from run \<open>envelope = Some env\<close>
              insertPayload_NewPayload_undecided [OF env sane commit newp undecided, of fc updateSafe]
            have "t = BlockInsertTemporaryErr" "err = NewPayloadErr payload status" by simp_all
            with undecided show ?thesis by (simp add: NewPayloadErr_def)
          next
            case valid
            obtain fr w3 where fcu: "eng_ForkchoiceUpdate c w2
                (if updateSafe
                 then fc\<lparr>HeadBlockHash := BlockHash payload, SafeBlockHash := BlockHash payload\<rparr>
                 else fc\<lparr>HeadBlockHash := BlockHash payload\<rparr>) None = (fr, w3)"
              by (cases "eng_ForkchoiceUpdate c w2
                (if updateSafe
                 then fc\<lparr>HeadBlockHash := BlockHash payload, SafeBlockHash := BlockHash payload\<rparr>
                 else fc\<lparr>HeadBlockHash := BlockHash payload\<rparr>) None")
            show ?thesis
            proof (cases fr)
              case (Inl e)
              from run \<open>envelope = Some env\<close>
                insertPayload_forkchoice_failed [OF env sane commit newp valid fcu [unfolded Inl]]
              show ?thesis
                by (cases "errors_As_InputError e") (auto split: if_splits)
            next
              case (Inr fcRes)
              from run \<open>envelope = Some env\<close>
                insertPayload_forkchoice_answered [OF env sane commit newp valid fcu [unfolded Inr]]
              show ?thesis
                by (auto simp: ForkchoiceUpdateErr_def split: if_splits)
            qed
          qed
        qed
      qed
    qed
  qed
qed

lemma startPayload_OK_iff_nil:
  assumes run: "startPayload c fc attrs s = ((pid, t, err), s')"
  shows "(t = BlockInsertOK) = (err = None)"
proof -
  obtain fr w1 where fcu: "eng_ForkchoiceUpdate c (world s) fc attrs = (fr, w1)"
    by (cases "eng_ForkchoiceUpdate c (world s) fc attrs")
  show ?thesis
  proof (cases fr)
    case (Inl e)
    with run fcu show ?thesis
      by (auto simp: startPayload_def call_ForkchoiceUpdate_def
          split: option.splits ErrorCode.splits)
  next
    case (Inr fcRes)
    with run fcu show ?thesis
      by (cases "Status (PayloadStatus fcRes)")
        (auto simp: startPayload_def call_ForkchoiceUpdate_def ForkchoiceUpdateErr_def
          split: option.splits)
  qed
qed

lemma confirmPayload_engine_OK_iff_nil:
  assumes run: "confirmPayload_engine c fc updateSafe engineEnvelope s = (Returned (out, t, err), s')"
  shows "(t = BlockInsertOK) = (err = None)"
proof -
  obtain r s1 where ins: "insertPayload c fc updateSafe engineEnvelope s = (r, s1)"
    by (cases "insertPayload c fc updateSafe engineEnvelope s")
  show ?thesis
  proof (cases r)
    case (Panic p)
    with run ins show ?thesis by (simp add: confirmPayload_engine_def)
  next
    case (Returned te)
    obtain t' e' where te: "te = (t', e')" by (cases te)
    with run ins Returned have "t = t'" "err = e'"
      by (simp_all add: confirmPayload_engine_def)
    with insertPayload_OK_iff_nil [OF ins [unfolded Returned te]] show ?thesis by simp
  qed
qed

lemma confirmPayload_OK_iff_nil:
  assumes run: "confirmPayload c fc payloadInfo updateSafe l2head s = (Returned (out, t, err), s')"
  shows "(t = BlockInsertOK) = (err = None)"
proof -
  obtain g s1 where get: "confirmPayload_get c payloadInfo l2head s = (g, s1)"
    by (cases "confirmPayload_get c payloadInfo l2head s")
  show ?thesis
  proof (cases g)
    case (Panic p)
    with run get show ?thesis by (simp add: confirmPayload_def)
  next
    case (Returned ebe)
    obtain engineEnvelope builderEnvelope gerr where ebe: "ebe = (engineEnvelope, builderEnvelope, gerr)"
      by (cases ebe)
    show ?thesis
    proof (cases gerr)
      case (Some e)
      with run get Returned ebe show ?thesis by (auto simp: confirmPayload_def)
    next
      case None
      show ?thesis
      proof (cases builderEnvelope)
        case bn: None
        with run get Returned ebe None
        have "confirmPayload_engine c fc updateSafe engineEnvelope s1 = (Returned (out, t, err), s')"
          by (simp add: confirmPayload_def)
        then show ?thesis by (rule confirmPayload_engine_OK_iff_nil)
      next
        case (Some b)
        obtain r s2 where ins: "insertPayload c fc updateSafe (Some b) s1 = (r, s2)"
          by (cases "insertPayload c fc updateSafe (Some b) s1")
        show ?thesis
        proof (cases r)
          case (Panic p)
          with run get Returned ebe None Some ins show ?thesis by (simp add: confirmPayload_def)
        next
          case rr: (Returned te)
          obtain t' e' where te: "te = (t', e')" by (cases te)
          note ok = insertPayload_OK_iff_nil [OF ins [unfolded rr te]]
          show ?thesis
          proof (cases e')
            case en: None
            with run get Returned ebe None Some ins rr te have "t = t'" "err = None"
              by (simp_all add: confirmPayload_def)
            with ok en show ?thesis by simp
          next
            case (Some e)
            with run get Returned ebe None \<open>builderEnvelope = Some b\<close> ins rr te
            have "confirmPayload_engine c fc updateSafe engineEnvelope s2 = (Returned (out, t, err), s')"
              by (simp add: confirmPayload_def)
            then show ?thesis by (rule confirmPayload_engine_OK_iff_nil)
          qed
        qed
      qed
    qed
  qed
qed


section \<open>Facts about the examples\<close>

lemma example_payload_sane: "sanityCheckPayload (Some (example_payload h)) = Returned None"
  using sanityCheckPayload_privileged_first [of "example_payload h"]
  by (simp add: example_payload_def is_privileged_def DepositTxType_def)

lemma example_payload_BlockHash: "BlockHash (example_payload h) = h"
  by (simp add: example_payload_def)

lemma example_engine_envelope_fields:
  "ExecutionPayload example_engine_envelope = Some (example_payload 0xE1)"
  "ParentBeaconBlockRoot example_engine_envelope = Some 0xBEAC"
  by (simp_all add: example_engine_envelope_def)

lemma example_builder_envelope_fields:
  "ExecutionPayload example_builder_envelope = Some (example_payload 0xB1)"
  "ParentBeaconBlockRoot example_builder_envelope = Some 0xBAD"
  by (simp_all add: example_builder_envelope_def)

lemma scripted_fields:
  "eng_ForkchoiceUpdate (scripted fcu gp np cm en bgp sd) w fc attrs = (fcu, Suc w)"
  "eng_GetPayload (scripted fcu gp np cm en bgp sd) w payloadInfo = (gp, Suc w)"
  "eng_NewPayload (scripted fcu gp np cm en bgp sd) w payload root = (np payload, Suc w)"
  "conductor_CommitUnsafePayload (scripted fcu gp np cm en bgp sd) w envelope = (cm envelope, Suc w)"
  "builder_Enabled (scripted fcu gp np cm en bgp sd) w = en"
  "builder_GetPayload (scripted fcu gp np cm en bgp sd) w l2head = (bgp, Suc w)"
  "select_Done (scripted fcu gp np cm en bgp sd) w = sd"
  by (simp_all add: scripted_def)

section \<open>The claims about the state machine\<close>

text \<open>
  Claim C2: when the engine answers the new-payload submission with the status invalid or
  invalid-block-hash, the insertion returns \<open>BlockInsertPayloadErr\<close> and the gossip cache is
  empty on return; when it answers with any other status than valid, the insertion returns
  \<open>BlockInsertTemporaryErr\<close>, the cache still holds the envelope and no clear call was made.
\<close>

theorem insertPayload_NewPayload_not_valid:
  assumes env: "ExecutionPayload env = Some payload"
    and sane: "sanityCheckPayload (Some payload) = Returned None"
    and commit: "conductor_CommitUnsafePayload c (world s) env = (None, w1)"
    and newp: "eng_NewPayload c w1 payload (ParentBeaconBlockRoot env) = (Inr status, w2)"
  shows "(Status status = ExecutionInvalid \<or> Status status = ExecutionInvalidBlockHash \<longrightarrow>
            insertPayload c fc updateSafe (Some env) s =
              (Returned (BlockInsertPayloadErr, NewPayloadErr payload status),
               s\<lparr>world := w2, agossip := None,
                 calls := calls s @ [CallCommitUnsafePayload env, CallGossip env,
                   CallNewPayload payload (ParentBeaconBlockRoot env), CallClear]\<rparr>))
       \<and> (Status status \<noteq> ExecutionValid \<and> Status status \<noteq> ExecutionInvalid
            \<and> Status status \<noteq> ExecutionInvalidBlockHash \<longrightarrow>
            insertPayload c fc updateSafe (Some env) s =
              (Returned (BlockInsertTemporaryErr, NewPayloadErr payload status),
               s\<lparr>world := w2, agossip := Some env,
                 calls := calls s @ [CallCommitUnsafePayload env, CallGossip env,
                   CallNewPayload payload (ParentBeaconBlockRoot env)]\<rparr>))"
  using insertPayload_NewPayload_invalid [OF env sane commit newp]
    insertPayload_NewPayload_undecided [OF env sane commit newp]
  by blast

text \<open>
  Claim C2 on the example envelope: the engine answers invalid, and the engine answers that
  it is syncing.
\<close>

theorem insertPayload_NewPayload_not_valid_witness:
  "insertPayload
     (scripted (Inl (ErrorNew ''unused'')) (None, None)
        (\<lambda>p. Inr (status_of ExecutionInvalid)) (\<lambda>e. None) False (None, None, None) True)
     example_fc False (Some example_engine_envelope) initial_state
   = (Returned (BlockInsertPayloadErr, Some (StatusError ''new payload'' ExecutionInvalid)),
      \<lparr>world = 2, agossip = None,
       calls = [CallCommitUnsafePayload example_engine_envelope, CallGossip example_engine_envelope,
         CallNewPayload (example_payload 0xE1) (Some 0xBEAC), CallClear]\<rparr>)
   \<and> insertPayload
     (scripted (Inl (ErrorNew ''unused'')) (None, None)
        (\<lambda>p. Inr (status_of (ExecutionOtherStatus ''SYNCING''))) (\<lambda>e. None) False
        (None, None, None) True)
     example_fc False (Some example_engine_envelope) initial_state
   = (Returned (BlockInsertTemporaryErr,
        Some (StatusError ''new payload'' (ExecutionOtherStatus ''SYNCING''))),
      \<lparr>world = 2, agossip = Some example_engine_envelope,
       calls = [CallCommitUnsafePayload example_engine_envelope, CallGossip example_engine_envelope,
         CallNewPayload (example_payload 0xE1) (Some 0xBEAC)]\<rparr>)"
  using insertPayload_NewPayload_not_valid
      [of example_engine_envelope "example_payload 0xE1"
        "scripted (Inl (ErrorNew ''unused'')) (None, None)
           (\<lambda>p. Inr (status_of ExecutionInvalid)) (\<lambda>e. None) False (None, None, None) True"
        initial_state 1 "status_of ExecutionInvalid" 2 example_fc False]
    insertPayload_NewPayload_not_valid
      [of example_engine_envelope "example_payload 0xE1"
        "scripted (Inl (ErrorNew ''unused'')) (None, None)
           (\<lambda>p. Inr (status_of (ExecutionOtherStatus ''SYNCING''))) (\<lambda>e. None) False
           (None, None, None) True"
        initial_state 1 "status_of (ExecutionOtherStatus ''SYNCING'')" 2 example_fc False]
  by (simp add: example_engine_envelope_fields example_payload_sane scripted_fields initial_state_def
      status_of_def NewPayloadErr_def)

text \<open>
  Claim C3: when the commit to the sequencer conductor fails, the insertion returns
  \<open>BlockInsertTemporaryErr\<close>, the gossip cache is what it was before, the commit is the only
  call made, and so no call to the engine is made.
\<close>

theorem insertPayload_conductor_commit_fails:
  assumes env: "ExecutionPayload env = Some payload"
    and sane: "sanityCheckPayload (Some payload) = Returned None"
    and commit: "conductor_CommitUnsafePayload c (world s) env = (Some err, w1)"
  shows "fst (insertPayload c fc updateSafe (Some env) s) =
           Returned (BlockInsertTemporaryErr,
             Some (ErrorfW ''failed to commit unsafe payload to conductor: %w'' [] err))
       \<and> agossip (snd (insertPayload c fc updateSafe (Some env) s)) = agossip s
       \<and> calls (snd (insertPayload c fc updateSafe (Some env) s)) =
           calls s @ [CallCommitUnsafePayload env]
       \<and> filter is_engine_call (calls (snd (insertPayload c fc updateSafe (Some env) s))) =
           filter is_engine_call (calls s)
       \<and> world (snd (insertPayload c fc updateSafe (Some env) s)) = w1"
  by (simp add: insertPayload_commit_failed [OF env sane commit])

text \<open>
  Claim C3 on the example envelope, with a conductor that cannot be reached and an empty
  gossip cache.
\<close>

theorem insertPayload_conductor_commit_fails_witness:
  "insertPayload
     (scripted (Inl (ErrorNew ''unused'')) (None, None)
        (\<lambda>p. Inr (status_of ExecutionValid)) (\<lambda>e. Some (ErrorNew ''conductor unreachable''))
        False (None, None, None) True)
     example_fc True (Some example_engine_envelope) initial_state
   = (Returned (BlockInsertTemporaryErr,
        Some (ErrorfW ''failed to commit unsafe payload to conductor: %w'' []
                (ErrorNew ''conductor unreachable''))),
      \<lparr>world = 1, agossip = None, calls = [CallCommitUnsafePayload example_engine_envelope]\<rparr>)"
proof -
  let ?c = "scripted (Inl (ErrorNew ''unused'')) (None, None)
        (\<lambda>p. Inr (status_of ExecutionValid)) (\<lambda>e. Some (ErrorNew ''conductor unreachable''))
        False (None, None, None) True"
  have commit: "conductor_CommitUnsafePayload ?c (world initial_state) example_engine_envelope =
      (Some (ErrorNew ''conductor unreachable''), 1)"
    by (simp add: scripted_fields initial_state_def)
  from insertPayload_conductor_commit_fails
    [OF example_engine_envelope_fields(1) example_payload_sane commit, of example_fc True]
  show ?thesis
    by (cases "insertPayload ?c example_fc True (Some example_engine_envelope) initial_state";
        cases "snd (insertPayload ?c example_fc True (Some example_engine_envelope) initial_state)")
      (simp add: initial_state_def)
qed

text \<open>
  Claim C4: when the forkchoice update that follows the accepted submission fails with an
  input error, the gossip cache is cleared before the insertion returns; the severity is
  \<open>BlockInsertPayloadErr\<close> for the code invalid-forkchoice-state and
  \<open>BlockInsertPrestateErr\<close> for every other code.
\<close>

theorem insertPayload_forkchoice_input_error:
  assumes env: "ExecutionPayload env = Some payload"
    and sane: "sanityCheckPayload (Some payload) = Returned None"
    and commit: "conductor_CommitUnsafePayload c (world s) env = (None, w1)"
    and newp: "eng_NewPayload c w1 payload (ParentBeaconBlockRoot env) = (Inr status, w2)"
    and st: "Status status = ExecutionValid"
    and fcu: "eng_ForkchoiceUpdate c w2
        (if updateSafe
         then fc\<lparr>HeadBlockHash := BlockHash payload, SafeBlockHash := BlockHash payload\<rparr>
         else fc\<lparr>HeadBlockHash := BlockHash payload\<rparr>) None = (Inl err, w3)"
    and inp: "errors_As_InputError err = Some (inner, code)"
  shows "(code = InvalidForkchoiceState \<longrightarrow>
            fst (insertPayload c fc updateSafe (Some env) s) =
              Returned (BlockInsertPayloadErr,
                Some (ErrorfW ''post-block-creation forkchoice update was inconsistent with engine, need reset to resolve: %w'' [] inner)))
       \<and> (code \<noteq> InvalidForkchoiceState \<longrightarrow>
            fst (insertPayload c fc updateSafe (Some env) s) =
              Returned (BlockInsertPrestateErr,
                Some (ErrorfW ''unexpected error code in forkchoice-updated response: %w'' [] err)))
       \<and> agossip (snd (insertPayload c fc updateSafe (Some env) s)) = None
       \<and> last (calls (snd (insertPayload c fc updateSafe (Some env) s))) = CallClear"
  using insertPayload_forkchoice_failed [OF env sane commit newp st fcu] inp
  by simp

text \<open>
  Claim C4 on the example envelope: the engine rejects the forkchoice state after it has
  accepted the payload, and then it answers with the code invalid-payload-attributes.
\<close>

theorem insertPayload_forkchoice_input_error_witness:
  "insertPayload
     (scripted (Inl (InputError (ErrorNew ''inconsistent'') InvalidForkchoiceState)) (None, None)
        (\<lambda>p. Inr (status_of ExecutionValid)) (\<lambda>e. None) False (None, None, None) True)
     example_fc True (Some example_engine_envelope) initial_state
   = (Returned (BlockInsertPayloadErr,
        Some (ErrorfW ''post-block-creation forkchoice update was inconsistent with engine, need reset to resolve: %w'' []
                (ErrorNew ''inconsistent''))),
      \<lparr>world = 3, agossip = None,
       calls = [CallCommitUnsafePayload example_engine_envelope, CallGossip example_engine_envelope,
         CallNewPayload (example_payload 0xE1) (Some 0xBEAC),
         CallForkchoiceUpdate
           \<lparr>HeadBlockHash = 0xE1, SafeBlockHash = 0xE1, FinalizedBlockHash = 0x0E\<rparr> None,
         CallClear]\<rparr>)
   \<and> fst (insertPayload
       (scripted (Inl (InputError (ErrorNew ''attributes'') InvalidPayloadAttributes)) (None, None)
          (\<lambda>p. Inr (status_of ExecutionValid)) (\<lambda>e. None) False (None, None, None) True)
       example_fc True (Some example_engine_envelope) initial_state)
     = Returned (BlockInsertPrestateErr,
         Some (ErrorfW ''unexpected error code in forkchoice-updated response: %w'' []
                 (InputError (ErrorNew ''attributes'') InvalidPayloadAttributes)))
   \<and> agossip (snd (insertPayload
       (scripted (Inl (InputError (ErrorNew ''attributes'') InvalidPayloadAttributes)) (None, None)
          (\<lambda>p. Inr (status_of ExecutionValid)) (\<lambda>e. None) False (None, None, None) True)
       example_fc True (Some example_engine_envelope) initial_state)) = None"
proof -
  let ?c1 = "scripted (Inl (InputError (ErrorNew ''inconsistent'') InvalidForkchoiceState))
        (None, None) (\<lambda>p. Inr (status_of ExecutionValid)) (\<lambda>e. None) False (None, None, None) True"
  let ?c2 = "scripted (Inl (InputError (ErrorNew ''attributes'') InvalidPayloadAttributes))
        (None, None) (\<lambda>p. Inr (status_of ExecutionValid)) (\<lambda>e. None) False (None, None, None) True"
  have st: "Status (status_of ExecutionValid) = ExecutionValid"
    by (simp add: status_of_def)
  have run: "insertPayload ?c1 example_fc True (Some example_engine_envelope) initial_state
      = (fst (insertPayload ?c1 example_fc True (Some example_engine_envelope) initial_state),
         \<lparr>world = 3, agossip = None,
          calls = [CallCommitUnsafePayload example_engine_envelope, CallGossip example_engine_envelope,
            CallNewPayload (example_payload 0xE1) (Some 0xBEAC),
            CallForkchoiceUpdate
              \<lparr>HeadBlockHash = 0xE1, SafeBlockHash = 0xE1, FinalizedBlockHash = 0x0E\<rparr> None,
            CallClear]\<rparr>)"
    using insertPayload_forkchoice_failed
      [of example_engine_envelope "example_payload 0xE1" ?c1 initial_state 1 "status_of ExecutionValid" 2
        True example_fc "InputError (ErrorNew ''inconsistent'') InvalidForkchoiceState" 3]
    by (simp add: example_engine_envelope_fields example_payload_sane scripted_fields initial_state_def
        st example_payload_BlockHash example_fc_def)
  have a: "fst (insertPayload ?c1 example_fc True (Some example_engine_envelope) initial_state) =
      Returned (BlockInsertPayloadErr,
        Some (ErrorfW ''post-block-creation forkchoice update was inconsistent with engine, need reset to resolve: %w'' []
                (ErrorNew ''inconsistent'')))"
    using insertPayload_forkchoice_input_error
      [of example_engine_envelope "example_payload 0xE1" ?c1 initial_state 1 "status_of ExecutionValid" 2
        True example_fc "InputError (ErrorNew ''inconsistent'') InvalidForkchoiceState" 3
        "ErrorNew ''inconsistent''" InvalidForkchoiceState]
    by (simp add: example_engine_envelope_fields example_payload_sane scripted_fields initial_state_def st)
  have b: "fst (insertPayload ?c2 example_fc True (Some example_engine_envelope) initial_state) =
        Returned (BlockInsertPrestateErr,
          Some (ErrorfW ''unexpected error code in forkchoice-updated response: %w'' []
                  (InputError (ErrorNew ''attributes'') InvalidPayloadAttributes)))
      \<and> agossip (snd (insertPayload ?c2 example_fc True (Some example_engine_envelope) initial_state)) = None"
    using insertPayload_forkchoice_input_error
      [of example_engine_envelope "example_payload 0xE1" ?c2 initial_state 1 "status_of ExecutionValid" 2
        True example_fc "InputError (ErrorNew ''attributes'') InvalidPayloadAttributes" 3
        "ErrorNew ''attributes''" InvalidPayloadAttributes]
    by (simp add: example_engine_envelope_fields example_payload_sane scripted_fields initial_state_def st)
  from run a b show ?thesis by simp
qed


lemma startPayload_input_error:
  assumes fcu: "eng_ForkchoiceUpdate c (world s) fc attrs = (Inl err, w1)"
    and inp: "errors_As_InputError err = Some (inner, code)"
  shows "startPayload c fc attrs s =
     ((0,
       (case code of
          InvalidForkchoiceState \<Rightarrow>
            (BlockInsertPrestateErr,
             Some (ErrorfW ''pre-block-creation forkchoice update was inconsistent with engine, need reset to resolve: %w'' [] inner))
        | InvalidPayloadAttributes \<Rightarrow>
            (BlockInsertPayloadErr,
             Some (ErrorfW ''payload attributes are not valid, cannot build block: %w'' [] inner))
        | OtherErrorCode n \<Rightarrow>
            (BlockInsertPrestateErr,
             Some (ErrorfW ''unexpected error code in forkchoice-updated response: %w'' [] err)))),
      s\<lparr>world := w1, calls := calls s @ [CallForkchoiceUpdate fc attrs]\<rparr>)"
  using fcu inp
  by (cases code) (simp_all add: startPayload_def call_ForkchoiceUpdate_def)

text \<open>
  Claim C5, as the code has it: a forkchoice-update error that carries a code which is
  neither invalid-forkchoice-state nor invalid-payload-attributes is given the severity
  \<open>BlockInsertPrestateErr\<close>, by \<^verbatim>\<open>startPayload\<close> before the build and by
  \<^verbatim>\<open>insertPayload\<close> after it.
\<close>

theorem forkchoice_unrecognized_code_severity:
  assumes inp: "errors_As_InputError err = Some (inner, code)"
    and c1: "code \<noteq> InvalidForkchoiceState"
    and c2: "code \<noteq> InvalidPayloadAttributes"
  shows "(eng_ForkchoiceUpdate c (world s) fc attrs = (Inl err, w) \<longrightarrow>
            fst (startPayload c fc attrs s) =
              (0, BlockInsertPrestateErr,
               Some (ErrorfW ''unexpected error code in forkchoice-updated response: %w'' [] err)))
       \<and> (ExecutionPayload env = Some payload
            \<and> sanityCheckPayload (Some payload) = Returned None
            \<and> conductor_CommitUnsafePayload c (world s) env = (None, w1)
            \<and> eng_NewPayload c w1 payload (ParentBeaconBlockRoot env) = (Inr status, w2)
            \<and> Status status = ExecutionValid
            \<and> eng_ForkchoiceUpdate c w2
                 (if updateSafe
                  then fc\<lparr>HeadBlockHash := BlockHash payload, SafeBlockHash := BlockHash payload\<rparr>
                  else fc\<lparr>HeadBlockHash := BlockHash payload\<rparr>) None = (Inl err, w3) \<longrightarrow>
            fst (insertPayload c fc updateSafe (Some env) s) =
              Returned (BlockInsertPrestateErr,
                Some (ErrorfW ''unexpected error code in forkchoice-updated response: %w'' [] err)))"
proof (intro conjI impI)
  assume fcu: "eng_ForkchoiceUpdate c (world s) fc attrs = (Inl err, w)"
  from c1 c2 obtain n where "code = OtherErrorCode n" by (cases code) simp_all
  with startPayload_input_error [OF fcu inp]
  show "fst (startPayload c fc attrs s) =
      (0, BlockInsertPrestateErr,
       Some (ErrorfW ''unexpected error code in forkchoice-updated response: %w'' [] err))"
    by simp
next
  assume a: "ExecutionPayload env = Some payload
      \<and> sanityCheckPayload (Some payload) = Returned None
      \<and> conductor_CommitUnsafePayload c (world s) env = (None, w1)
      \<and> eng_NewPayload c w1 payload (ParentBeaconBlockRoot env) = (Inr status, w2)
      \<and> Status status = ExecutionValid
      \<and> eng_ForkchoiceUpdate c w2
           (if updateSafe
            then fc\<lparr>HeadBlockHash := BlockHash payload, SafeBlockHash := BlockHash payload\<rparr>
            else fc\<lparr>HeadBlockHash := BlockHash payload\<rparr>) None = (Inl err, w3)"
  then have env: "ExecutionPayload env = Some payload"
    and sane: "sanityCheckPayload (Some payload) = Returned None"
    and commit: "conductor_CommitUnsafePayload c (world s) env = (None, w1)"
    and newp: "eng_NewPayload c w1 payload (ParentBeaconBlockRoot env) = (Inr status, w2)"
    and st: "Status status = ExecutionValid"
    and fcu: "eng_ForkchoiceUpdate c w2
           (if updateSafe
            then fc\<lparr>HeadBlockHash := BlockHash payload, SafeBlockHash := BlockHash payload\<rparr>
            else fc\<lparr>HeadBlockHash := BlockHash payload\<rparr>) None = (Inl err, w3)"
    by blast+
  from insertPayload_forkchoice_failed [OF env sane commit newp st fcu] inp c1
  show "fst (insertPayload c fc updateSafe (Some env) s) =
      Returned (BlockInsertPrestateErr,
        Some (ErrorfW ''unexpected error code in forkchoice-updated response: %w'' [] err))"
    by simp
qed

text \<open>
  Claim C5 as amended, on the example: the engine answers both forkchoice updates with the
  code -32000.
\<close>

theorem forkchoice_unrecognized_code_severity_witness:
  "fst (startPayload
     (scripted (Inl (InputError (ErrorNew ''server error'') (OtherErrorCode (- 32000))))
        (None, None) (\<lambda>p. Inr (status_of ExecutionValid)) (\<lambda>e. None) False (None, None, None) True)
     example_fc None initial_state)
   = (0, BlockInsertPrestateErr,
      Some (ErrorfW ''unexpected error code in forkchoice-updated response: %w'' []
              (InputError (ErrorNew ''server error'') (OtherErrorCode (- 32000)))))
   \<and> fst (insertPayload
     (scripted (Inl (InputError (ErrorNew ''server error'') (OtherErrorCode (- 32000))))
        (None, None) (\<lambda>p. Inr (status_of ExecutionValid)) (\<lambda>e. None) False (None, None, None) True)
     example_fc False (Some example_engine_envelope) initial_state)
   = Returned (BlockInsertPrestateErr,
       Some (ErrorfW ''unexpected error code in forkchoice-updated response: %w'' []
               (InputError (ErrorNew ''server error'') (OtherErrorCode (- 32000)))))"
  using forkchoice_unrecognized_code_severity
    [of "InputError (ErrorNew ''server error'') (OtherErrorCode (- 32000))"
      "ErrorNew ''server error''" "OtherErrorCode (- 32000)"
      "scripted (Inl (InputError (ErrorNew ''server error'') (OtherErrorCode (- 32000))))
        (None, None) (\<lambda>p. Inr (status_of ExecutionValid)) (\<lambda>e. None) False (None, None, None) True"
      initial_state example_fc None 1 example_engine_envelope "example_payload 0xE1" 1
      "status_of ExecutionValid" 2 False 3]
  by (simp add: example_engine_envelope_fields example_payload_sane scripted_fields initial_state_def
      status_of_def)

text \<open>
  Claim C5 as stated fails: for the code -32000 neither operation returns
  \<open>BlockInsertTemporaryErr\<close>.
\<close>

theorem forkchoice_unrecognized_code_not_temporary:
  "fst (snd (fst (startPayload
     (scripted (Inl (InputError (ErrorNew ''server error'') (OtherErrorCode (- 32000))))
        (None, None) (\<lambda>p. Inr (status_of ExecutionValid)) (\<lambda>e. None) False (None, None, None) True)
     example_fc None initial_state)))
   \<noteq> BlockInsertTemporaryErr
   \<and> map_outcome fst (fst (insertPayload
     (scripted (Inl (InputError (ErrorNew ''server error'') (OtherErrorCode (- 32000))))
        (None, None) (\<lambda>p. Inr (status_of ExecutionValid)) (\<lambda>e. None) False (None, None, None) True)
     example_fc False (Some example_engine_envelope) initial_state))
   \<noteq> Returned BlockInsertTemporaryErr"
proof -
  let ?err = "InputError (ErrorNew ''server error'') (OtherErrorCode (- 32000))"
  let ?c = "scripted (Inl ?err)
        (None, None) (\<lambda>p. Inr (status_of ExecutionValid)) (\<lambda>e. None) False (None, None, None) True"
  have "fst (startPayload ?c example_fc None initial_state) =
      (0, BlockInsertPrestateErr,
       Some (ErrorfW ''unexpected error code in forkchoice-updated response: %w'' [] ?err))"
    using startPayload_input_error
      [of ?c initial_state example_fc None ?err 1 "ErrorNew ''server error''"
        "OtherErrorCode (- 32000)"]
    by (simp add: scripted_fields initial_state_def)
  moreover have "fst (insertPayload ?c example_fc False (Some example_engine_envelope) initial_state) =
      Returned (BlockInsertPrestateErr,
        Some (ErrorfW ''unexpected error code in forkchoice-updated response: %w'' [] ?err))"
    using insertPayload_forkchoice_failed
      [of example_engine_envelope "example_payload 0xE1" ?c initial_state 1 "status_of ExecutionValid" 2
        False example_fc ?err 3]
    by (simp add: example_engine_envelope_fields example_payload_sane scripted_fields initial_state_def
        status_of_def)
  ultimately show ?thesis by simp
qed

section \<open>The claims about the race and the confirmation\<close>

lemma getPayloadWithBuilderPayload_selected:
  assumes en: "builder_Enabled c (world s)"
    and bld: "builder_GetPayload c (world s) l2head = ((bpayload, profit, None), w1)"
    and eng: "eng_GetPayload c w1 payloadInfo = ((envelope, err), w2)"
    and sel: "\<not> select_Done c w2"
  shows "getPayloadWithBuilderPayload c payloadInfo l2head s =
     ((case bpayload of
         None \<Rightarrow> Panic NilDereference
       | Some result_envelope \<Rightarrow>
           (case ExecutionPayload result_envelope of
              None \<Rightarrow> Panic NilDereference
            | Some result_payload \<Rightarrow>
                (case envelope of
                   None \<Rightarrow> Panic NilDereference
                 | Some ee \<Rightarrow>
                     Returned
                       (envelope,
                        Some (result_envelope
                           \<lparr>ParentBeaconBlockRoot := ParentBeaconBlockRoot ee\<rparr>),
                        profit, err)))),
      s\<lparr>world := w2, calls := calls s @ [CallBuilderGetPayload l2head, CallGetPayload payloadInfo]\<rparr>)"
  using en bld eng sel
  by (simp add: getPayloadWithBuilderPayload_def call_GetPayload_def call_builder_GetPayload_def
      split: option.splits)

lemma getPayloadWithBuilderPayload_disabled:
  assumes en: "\<not> builder_Enabled c (world s)"
    and eng: "eng_GetPayload c (world s) payloadInfo = ((envelope, err), w1)"
  shows "getPayloadWithBuilderPayload c payloadInfo l2head s =
     (Returned (envelope, None, None, err),
      s\<lparr>world := w1, calls := calls s @ [CallGetPayload payloadInfo]\<rparr>)"
  using en eng by (simp add: getPayloadWithBuilderPayload_def call_GetPayload_def)

text \<open>
  Claim C7: whenever the race returns a builder envelope, the builder was enabled, it
  answered without an error and the channel case of the \<^verbatim>\<open>select\<close> was taken. The engine
  envelope returned is the envelope that the engine's \<^verbatim>\<open>GetPayload\<close> answered, unchanged,
  and it is present. The builder envelope returned is the envelope that the builder's
  \<^verbatim>\<open>GetPayload\<close> answered, with its parent beacon block root overwritten by the root of the
  engine's envelope, whatever root the builder's envelope came with. So the two roots
  returned are equal, and both are the engine's.
\<close>

theorem getPayloadWithBuilderPayload_beacon_root:
  assumes run: "getPayloadWithBuilderPayload c payloadInfo l2head s =
      (Returned (engineEnvelope, Some b, profit, err), s')"
    and bld: "builder_GetPayload c (world s) l2head = ((bpayload, bprofit, berr), w1)"
    and eng: "eng_GetPayload c w1 payloadInfo = ((envelope, eerr), w2)"
  shows "builder_Enabled c (world s) \<and> berr = None \<and> \<not> select_Done c w2
       \<and> engineEnvelope = envelope \<and> err = eerr \<and> profit = bprofit
       \<and> (\<exists>result_envelope engine_env.
             bpayload = Some result_envelope \<and> envelope = Some engine_env
             \<and> b = result_envelope\<lparr>ParentBeaconBlockRoot := ParentBeaconBlockRoot engine_env\<rparr>
             \<and> ParentBeaconBlockRoot b = ParentBeaconBlockRoot engine_env)
       \<and> map_option ParentBeaconBlockRoot engineEnvelope = Some (ParentBeaconBlockRoot b)
       \<and> s' = s\<lparr>world := w2,
                 calls := calls s @ [CallBuilderGetPayload l2head, CallGetPayload payloadInfo]\<rparr>"
proof (cases "builder_Enabled c (world s)")
  case False
  then show ?thesis
    using run by (simp add: getPayloadWithBuilderPayload_def split: prod.splits)
next
  case True
  show ?thesis
  proof (cases berr)
    case (Some e)
    with run True bld eng show ?thesis
      by (simp add: getPayloadWithBuilderPayload_def call_GetPayload_def
          call_builder_GetPayload_def)
  next
    case None
    show ?thesis
    proof (cases "select_Done c w2")
      case sd: True
      with run \<open>builder_Enabled c (world s)\<close> bld eng None show ?thesis
        by (simp add: getPayloadWithBuilderPayload_def call_GetPayload_def
            call_builder_GetPayload_def)
    next
      case False
      note sel = getPayloadWithBuilderPayload_selected
        [OF \<open>builder_Enabled c (world s)\<close> bld [unfolded None] eng False]
      show ?thesis
      proof (cases bpayload)
        case bn: None
        with sel run show ?thesis by simp
      next
        case (Some result_envelope)
        show ?thesis
        proof (cases "ExecutionPayload result_envelope")
          case pn: None
          with sel run Some show ?thesis by simp
        next
          case (Some result_payload)
          show ?thesis
          proof (cases envelope)
            case en: None
            with sel run \<open>bpayload = Some result_envelope\<close> Some show ?thesis by simp
          next
            case (Some engine_env)
            with sel run \<open>bpayload = Some result_envelope\<close>
              \<open>ExecutionPayload result_envelope = Some result_payload\<close>
            have "engineEnvelope = envelope" "err = eerr" "profit = bprofit"
              "b = result_envelope\<lparr>ParentBeaconBlockRoot := ParentBeaconBlockRoot engine_env\<rparr>"
              "s' = s\<lparr>world := w2,
                 calls := calls s @ [CallBuilderGetPayload l2head, CallGetPayload payloadInfo]\<rparr>"
              by auto
            with \<open>builder_Enabled c (world s)\<close> None False Some
              \<open>bpayload = Some result_envelope\<close>
            show ?thesis by simp
          qed
        qed
      qed
    qed
  qed
qed

text \<open>
  Claim C7 on the example. First the builder's envelope comes with the root \<open>0xBAD\<close> and
  the engine's with \<open>0xBEAC\<close>: the builder's envelope is returned with \<open>0xBEAC\<close> and the
  engine's as it was. Then the engine's envelope comes with no root: the builder's envelope
  is returned with no root, the root \<open>0xBAD\<close> is gone.
\<close>

theorem getPayloadWithBuilderPayload_beacon_root_witness:
  "getPayloadWithBuilderPayload
     (scripted (Inl (ErrorNew ''unused'')) (Some example_engine_envelope, None)
        (\<lambda>p. Inr (status_of ExecutionValid)) (\<lambda>e. None) True
        (Some example_builder_envelope, Some 5, None) False)
     example_info example_head initial_state
   = (Returned
        (Some example_engine_envelope,
         Some \<lparr>ParentBeaconBlockRoot = Some 0xBEAC,
               ExecutionPayload = Some (example_payload 0xB1)\<rparr>,
         Some 5, None),
      \<lparr>world = 2, agossip = None,
       calls = [CallBuilderGetPayload example_head, CallGetPayload example_info]\<rparr>)
   \<and> ParentBeaconBlockRoot example_engine_envelope = Some 0xBEAC
   \<and> ParentBeaconBlockRoot example_builder_envelope = Some 0xBAD
   \<and> getPayloadWithBuilderPayload
     (scripted (Inl (ErrorNew ''unused''))
        (Some (example_engine_envelope\<lparr>ParentBeaconBlockRoot := None\<rparr>), None)
        (\<lambda>p. Inr (status_of ExecutionValid)) (\<lambda>e. None) True
        (Some example_builder_envelope, Some 5, None) False)
     example_info example_head initial_state
   = (Returned
        (Some \<lparr>ParentBeaconBlockRoot = None, ExecutionPayload = Some (example_payload 0xE1)\<rparr>,
         Some \<lparr>ParentBeaconBlockRoot = None, ExecutionPayload = Some (example_payload 0xB1)\<rparr>,
         Some 5, None),
      \<lparr>world = 2, agossip = None,
       calls = [CallBuilderGetPayload example_head, CallGetPayload example_info]\<rparr>)"
proof -
  let ?c1 = "scripted (Inl (ErrorNew ''unused'')) (Some example_engine_envelope, None)
        (\<lambda>p. Inr (status_of ExecutionValid)) (\<lambda>e. None) True
        (Some example_builder_envelope, Some 5, None) False"
  let ?c2 = "scripted (Inl (ErrorNew ''unused''))
        (Some (example_engine_envelope\<lparr>ParentBeaconBlockRoot := None\<rparr>), None)
        (\<lambda>p. Inr (status_of ExecutionValid)) (\<lambda>e. None) True
        (Some example_builder_envelope, Some 5, None) False"
  let ?r1 = "getPayloadWithBuilderPayload ?c1 example_info example_head initial_state"
  let ?r2 = "getPayloadWithBuilderPayload ?c2 example_info example_head initial_state"
  have returns1: "\<exists>e b p r t. ?r1 = (Returned (e, Some b, p, r), t)"
    by (simp add: getPayloadWithBuilderPayload_def call_GetPayload_def
        call_builder_GetPayload_def scripted_fields initial_state_def
        example_builder_envelope_fields)
  have returns2: "\<exists>e b p r t. ?r2 = (Returned (e, Some b, p, r), t)"
    by (simp add: getPayloadWithBuilderPayload_def call_GetPayload_def
        call_builder_GetPayload_def scripted_fields initial_state_def
        example_builder_envelope_fields)
  from returns1 obtain e1 b1 p1 r1 t1 where run1: "?r1 = (Returned (e1, Some b1, p1, r1), t1)"
    by blast
  from returns2 obtain e2 b2 p2 r2 t2 where run2: "?r2 = (Returned (e2, Some b2, p2, r2), t2)"
    by blast
  have bld1: "builder_GetPayload ?c1 (world initial_state) example_head =
      ((Some example_builder_envelope, Some 5, None), 1)"
    and eng1: "eng_GetPayload ?c1 1 example_info = ((Some example_engine_envelope, None), 2)"
    and bld2: "builder_GetPayload ?c2 (world initial_state) example_head =
      ((Some example_builder_envelope, Some 5, None), 1)"
    and eng2: "eng_GetPayload ?c2 1 example_info =
      ((Some (example_engine_envelope\<lparr>ParentBeaconBlockRoot := None\<rparr>), None), 2)"
    by (simp_all add: scripted_fields initial_state_def)
  from getPayloadWithBuilderPayload_beacon_root [OF run1 bld1 eng1]
  have first: "?r1 = (Returned
        (Some example_engine_envelope,
         Some \<lparr>ParentBeaconBlockRoot = Some 0xBEAC,
               ExecutionPayload = Some (example_payload 0xB1)\<rparr>,
         Some 5, None),
      \<lparr>world = 2, agossip = None,
       calls = [CallBuilderGetPayload example_head, CallGetPayload example_info]\<rparr>)"
    unfolding run1
    by (simp add: example_engine_envelope_def example_builder_envelope_def initial_state_def)
  from getPayloadWithBuilderPayload_beacon_root [OF run2 bld2 eng2]
  have second: "?r2 = (Returned
        (Some \<lparr>ParentBeaconBlockRoot = None, ExecutionPayload = Some (example_payload 0xE1)\<rparr>,
         Some \<lparr>ParentBeaconBlockRoot = None, ExecutionPayload = Some (example_payload 0xB1)\<rparr>,
         Some 5, None),
      \<lparr>world = 2, agossip = None,
       calls = [CallBuilderGetPayload example_head, CallGetPayload example_info]\<rparr>)"
    unfolding run2
    by (simp add: example_engine_envelope_def example_builder_envelope_def initial_state_def)
  from first second show ?thesis
    by (simp add: example_engine_envelope_fields example_builder_envelope_fields)
qed

text \<open>
  Claim C10 says that the engine envelope is present whenever the builder's result is
  selected, also when the engine fetch returned an error. Here the builder is enabled and
  delivers before its deadline, and the engine's \<^verbatim>\<open>GetPayload\<close> returns no envelope and an
  error: the assignment of the beacon root reads through the nil engine envelope, and the
  race panics.
\<close>

theorem getPayloadWithBuilderPayload_engine_error_panics:
  "getPayloadWithBuilderPayload
     (scripted (Inl (ErrorNew ''unused'')) (None, Some (ErrorNew ''unknown payload''))
        (\<lambda>p. Inr (status_of ExecutionValid)) (\<lambda>e. None) True
        (Some example_builder_envelope, Some 5, None) False)
     example_info example_head initial_state
   = (Panic NilDereference,
      \<lparr>world = 2, agossip = None,
       calls = [CallBuilderGetPayload example_head, CallGetPayload example_info]\<rparr>)"
  using getPayloadWithBuilderPayload_selected
    [of "scripted (Inl (ErrorNew ''unused'')) (None, Some (ErrorNew ''unknown payload''))
        (\<lambda>p. Inr (status_of ExecutionValid)) (\<lambda>e. None) True
        (Some example_builder_envelope, Some 5, None) False"
      initial_state example_head "Some example_builder_envelope" "Some 5" 1 example_info
      None "Some (ErrorNew ''unknown payload'')" 2]
  by (simp add: scripted_fields initial_state_def example_builder_envelope_fields)


text \<open>
  Claim C6: when the race has delivered a builder envelope, the insertion of that envelope
  decides. If it fails, the engine's envelope is inserted next, and the engine's envelope
  is returned with the severity and error of that second insertion alone. If it succeeds,
  the builder's envelope is returned with \<open>BlockInsertOK\<close> and no error.
\<close>

theorem confirmPayload_builder_fallback:
  assumes cache: "agossip s = None"
    and race: "getPayloadWithBuilderPayload c payloadInfo l2head s =
        (Returned (engineEnvelope, Some b, profit, None), s1)"
    and ins: "insertPayload c fc updateSafe (Some b) s1 = (Returned (errTyp, berr), s2)"
  shows "(berr \<noteq> None \<longrightarrow>
            confirmPayload c fc payloadInfo updateSafe l2head s =
              (case insertPayload c fc updateSafe engineEnvelope s2 of
                 (Panic p, s3) \<Rightarrow> (Panic p, s3)
               | (Returned (errType, err), s3) \<Rightarrow> (Returned (engineEnvelope, errType, err), s3)))
       \<and> (berr = None \<longrightarrow>
            errTyp = BlockInsertOK
            \<and> confirmPayload c fc payloadInfo updateSafe l2head s =
                (Returned (Some b, BlockInsertOK, None), s2))"
proof -
  have get: "confirmPayload_get c payloadInfo l2head s =
      (Returned (engineEnvelope, Some b, None), s1)"
    using cache race by (simp add: confirmPayload_get_def agossip_Get_def)
  show ?thesis
  proof (cases berr)
    case None
    with insertPayload_OK_iff_nil [OF ins] have "errTyp = BlockInsertOK" by simp
    with None get ins show ?thesis by (simp add: confirmPayload_def)
  next
    case (Some e)
    with get ins show ?thesis
      by (simp add: confirmPayload_def confirmPayload_engine_def)
  qed
qed

text \<open>
  Claim C6 on the example. The builder delivers in time. First the engine finds the
  builder's block invalid and accepts its own: the engine's envelope comes back with
  \<open>BlockInsertOK\<close>, and nothing of the failed attempt is returned. Then the engine accepts
  the builder's block: the builder's envelope comes back, with the engine's beacon root.
\<close>

theorem confirmPayload_builder_fallback_witness:
  "fst (confirmPayload
     (scripted (Inr \<lparr>PayloadStatus = status_of ExecutionValid, PayloadID = None\<rparr>)
        (Some example_engine_envelope, None)
        (\<lambda>p. if BlockHash p = 0xB1 then Inr (status_of ExecutionInvalid)
              else Inr (status_of ExecutionValid))
        (\<lambda>e. None) True (Some example_builder_envelope, Some 5, None) False)
     example_fc example_info False example_head initial_state)
   = Returned (Some example_engine_envelope, BlockInsertOK, None)
   \<and> fst (confirmPayload
     (scripted (Inr \<lparr>PayloadStatus = status_of ExecutionValid, PayloadID = None\<rparr>)
        (Some example_engine_envelope, None)
        (\<lambda>p. Inr (status_of ExecutionValid))
        (\<lambda>e. None) True (Some example_builder_envelope, Some 5, None) False)
     example_fc example_info False example_head initial_state)
   = Returned (Some (example_builder_envelope\<lparr>ParentBeaconBlockRoot := Some 0xBEAC\<rparr>),
       BlockInsertOK, None)"
proof -
  let ?fcu = "Inr \<lparr>PayloadStatus = status_of ExecutionValid, PayloadID = None\<rparr>"
  let ?c1 = "scripted ?fcu (Some example_engine_envelope, None)
        (\<lambda>p. if BlockHash p = 0xB1 then Inr (status_of ExecutionInvalid)
              else Inr (status_of ExecutionValid))
        (\<lambda>e. None) True (Some example_builder_envelope, Some 5, None) False"
  let ?c2 = "scripted ?fcu (Some example_engine_envelope, None)
        (\<lambda>p. Inr (status_of ExecutionValid))
        (\<lambda>e. None) True (Some example_builder_envelope, Some 5, None) False"
  let ?b = "example_builder_envelope\<lparr>ParentBeaconBlockRoot := Some 0xBEAC\<rparr>"
  let ?s1 = "\<lparr>world = 2, agossip = None,
       calls = [CallBuilderGetPayload example_head, CallGetPayload example_info]\<rparr>"
  let ?s2 = "\<lparr>world = 4, agossip = None,
       calls = [CallBuilderGetPayload example_head, CallGetPayload example_info,
         CallCommitUnsafePayload ?b, CallGossip ?b,
         CallNewPayload (example_payload 0xB1) (Some 0xBEAC), CallClear]\<rparr>"
  let ?fc = "example_fc\<lparr>HeadBlockHash := 0xB1\<rparr>"
  let ?s2' = "\<lparr>world = 5, agossip = None,
       calls = [CallBuilderGetPayload example_head, CallGetPayload example_info,
         CallCommitUnsafePayload ?b, CallGossip ?b,
         CallNewPayload (example_payload 0xB1) (Some 0xBEAC),
         CallForkchoiceUpdate ?fc None, CallClear]\<rparr>"
  have b_fields: "ExecutionPayload ?b = Some (example_payload 0xB1)"
    "ParentBeaconBlockRoot ?b = Some 0xBEAC"
    by (simp_all add: example_builder_envelope_fields)
  have valid: "Status (status_of ExecutionValid) = ExecutionValid"
    and invalid: "Status (status_of ExecutionInvalid) = ExecutionInvalid"
    by (simp_all add: status_of_def)
  have race1: "getPayloadWithBuilderPayload ?c1 example_info example_head initial_state =
      (Returned (Some example_engine_envelope, Some ?b, Some 5, None), ?s1)"
    using getPayloadWithBuilderPayload_selected
      [of ?c1 initial_state example_head "Some example_builder_envelope" "Some 5" 1 example_info
        "Some example_engine_envelope" None 2]
    by (simp add: scripted_fields initial_state_def example_builder_envelope_fields
        example_engine_envelope_fields)
  have race2: "getPayloadWithBuilderPayload ?c2 example_info example_head initial_state =
      (Returned (Some example_engine_envelope, Some ?b, Some 5, None), ?s1)"
    using getPayloadWithBuilderPayload_selected
      [of ?c2 initial_state example_head "Some example_builder_envelope" "Some 5" 1 example_info
        "Some example_engine_envelope" None 2]
    by (simp add: scripted_fields initial_state_def example_builder_envelope_fields
        example_engine_envelope_fields)
  have ins1: "insertPayload ?c1 example_fc False (Some ?b) ?s1 =
      (Returned (BlockInsertPayloadErr, Some (StatusError ''new payload'' ExecutionInvalid)), ?s2)"
    using insertPayload_NewPayload_invalid
      [of ?b "example_payload 0xB1" ?c1 ?s1 3 "status_of ExecutionInvalid" 4 example_fc False]
    by (simp add: b_fields example_payload_sane scripted_fields invalid NewPayloadErr_def
        example_payload_BlockHash)
  have eng1: "fst (insertPayload ?c1 example_fc False (Some example_engine_envelope) ?s2) =
      Returned (BlockInsertOK, None)"
    using insertPayload_forkchoice_answered
      [of example_engine_envelope "example_payload 0xE1" ?c1 ?s2 5 "status_of ExecutionValid" 6
        False example_fc "\<lparr>PayloadStatus = status_of ExecutionValid, PayloadID = None\<rparr>" 7]
    by (simp add: example_engine_envelope_fields example_payload_sane scripted_fields valid
        example_payload_BlockHash)
  have ins2: "insertPayload ?c2 example_fc False (Some ?b) ?s1 =
      (Returned (BlockInsertOK, None), ?s2')"
    using insertPayload_forkchoice_answered
      [of ?b "example_payload 0xB1" ?c2 ?s1 3 "status_of ExecutionValid" 4
        False example_fc "\<lparr>PayloadStatus = status_of ExecutionValid, PayloadID = None\<rparr>" 5]
    by (simp add: b_fields example_payload_sane scripted_fields valid example_payload_BlockHash)
  have cache: "agossip initial_state = None" by (simp add: initial_state_def)
  from confirmPayload_builder_fallback [OF cache race1 ins1] eng1
  have first: "fst (confirmPayload ?c1 example_fc example_info False example_head initial_state)
      = Returned (Some example_engine_envelope, BlockInsertOK, None)"
    by (cases "insertPayload ?c1 example_fc False (Some example_engine_envelope) ?s2") simp
  from confirmPayload_builder_fallback [OF cache race2 ins2]
  have second: "fst (confirmPayload ?c2 example_fc example_info False example_head initial_state)
      = Returned (Some ?b, BlockInsertOK, None)"
    by simp
  from first second show ?thesis by simp
qed

text \<open>
  Claim C8: each of \<^verbatim>\<open>startPayload\<close>, \<^verbatim>\<open>insertPayload\<close> and \<^verbatim>\<open>confirmPayload\<close>, whenever
  it returns, returns the severity \<open>BlockInsertOK\<close> if and only if the error it returns is
  nil; so every other severity comes with an error.
\<close>

theorem severity_OK_iff_error_nil:
  "(startPayload c fc attrs s = ((pid, t1, e1), s1) \<longrightarrow>
      (t1 = BlockInsertOK) = (e1 = None))
   \<and> (insertPayload c fc updateSafe envelope s = (Returned (t2, e2), s2) \<longrightarrow>
      (t2 = BlockInsertOK) = (e2 = None))
   \<and> (confirmPayload c fc payloadInfo updateSafe l2head s = (Returned (out, t3, e3), s3) \<longrightarrow>
      (t3 = BlockInsertOK) = (e3 = None))"
  using startPayload_OK_iff_nil [of c fc attrs s pid t1 e1 s1]
    insertPayload_OK_iff_nil [of c fc updateSafe envelope s t2 e2 s2]
    confirmPayload_OK_iff_nil [of c fc payloadInfo updateSafe l2head s out t3 e3 s3]
  by blast


text \<open>
  Claim C8 on the example, with the builder disabled: a build is started and the engine
  names the payload \<open>0xABC\<close>; a build is started and the engine names no payload; the
  payload is confirmed, the engine accepts it and the forkchoice update is valid.
\<close>

theorem severity_OK_iff_error_nil_witness:
  "startPayload
     (scripted (Inr \<lparr>PayloadStatus = status_of ExecutionValid, PayloadID = Some 0xABC\<rparr>)
        (Some example_engine_envelope, None) (\<lambda>p. Inr (status_of ExecutionValid)) (\<lambda>e. None)
        False (None, None, None) True)
     example_fc None initial_state
   = ((0xABC, BlockInsertOK, None),
      \<lparr>world = 1, agossip = None, calls = [CallForkchoiceUpdate example_fc None]\<rparr>)
   \<and> startPayload
     (scripted (Inr \<lparr>PayloadStatus = status_of ExecutionValid, PayloadID = None\<rparr>)
        (Some example_engine_envelope, None) (\<lambda>p. Inr (status_of ExecutionValid)) (\<lambda>e. None)
        False (None, None, None) True)
     example_fc None initial_state
   = ((0, BlockInsertTemporaryErr,
       Some (ErrorNew ''nil id in forkchoice result when expecting a valid ID'')),
      \<lparr>world = 1, agossip = None, calls = [CallForkchoiceUpdate example_fc None]\<rparr>)
   \<and> insertPayload
     (scripted (Inr \<lparr>PayloadStatus = status_of ExecutionValid, PayloadID = Some 0xABC\<rparr>)
        (Some example_engine_envelope, None) (\<lambda>p. Inr (status_of ExecutionValid)) (\<lambda>e. None)
        False (None, None, None) True)
     example_fc True (Some example_engine_envelope) initial_state
   = (Returned (BlockInsertOK, None),
      \<lparr>world = 3, agossip = None,
       calls = [CallCommitUnsafePayload example_engine_envelope,
         CallGossip example_engine_envelope,
         CallNewPayload (example_payload 0xE1) (Some 0xBEAC),
         CallForkchoiceUpdate
           \<lparr>HeadBlockHash = 0xE1, SafeBlockHash = 0xE1, FinalizedBlockHash = 0x0E\<rparr> None,
         CallClear]\<rparr>)
   \<and> confirmPayload
     (scripted (Inr \<lparr>PayloadStatus = status_of ExecutionValid, PayloadID = Some 0xABC\<rparr>)
        (Some example_engine_envelope, None) (\<lambda>p. Inr (status_of ExecutionValid)) (\<lambda>e. None)
        False (None, None, None) True)
     example_fc example_info True example_head initial_state
   = (Returned (Some example_engine_envelope, BlockInsertOK, None),
      \<lparr>world = 4, agossip = None,
       calls = [CallGetPayload example_info,
         CallCommitUnsafePayload example_engine_envelope,
         CallGossip example_engine_envelope,
         CallNewPayload (example_payload 0xE1) (Some 0xBEAC),
         CallForkchoiceUpdate
           \<lparr>HeadBlockHash = 0xE1, SafeBlockHash = 0xE1, FinalizedBlockHash = 0x0E\<rparr> None,
         CallClear]\<rparr>)"
proof -
  let ?res = "\<lparr>PayloadStatus = status_of ExecutionValid, PayloadID = Some 0xABC\<rparr>"
  let ?c = "scripted (Inr ?res)
        (Some example_engine_envelope, None) (\<lambda>p. Inr (status_of ExecutionValid)) (\<lambda>e. None)
        False (None, None, None) True"
  let ?c' = "scripted (Inr \<lparr>PayloadStatus = status_of ExecutionValid, PayloadID = None\<rparr>)
        (Some example_engine_envelope, None) (\<lambda>p. Inr (status_of ExecutionValid)) (\<lambda>e. None)
        False (None, None, None) True"
  let ?fc = "\<lparr>HeadBlockHash = 0xE1, SafeBlockHash = 0xE1, FinalizedBlockHash = 0x0E\<rparr>"
  let ?s1 = "\<lparr>world = 1, agossip = None, calls = [CallGetPayload example_info]\<rparr>"
  let ?s3 = "\<lparr>world = 3, agossip = None,
       calls = [CallCommitUnsafePayload example_engine_envelope,
         CallGossip example_engine_envelope,
         CallNewPayload (example_payload 0xE1) (Some 0xBEAC),
         CallForkchoiceUpdate ?fc None, CallClear]\<rparr>"
  let ?s4 = "\<lparr>world = 4, agossip = None,
       calls = [CallGetPayload example_info,
         CallCommitUnsafePayload example_engine_envelope,
         CallGossip example_engine_envelope,
         CallNewPayload (example_payload 0xE1) (Some 0xBEAC),
         CallForkchoiceUpdate ?fc None, CallClear]\<rparr>"
  have valid: "Status (status_of ExecutionValid) = ExecutionValid"
    by (simp add: status_of_def)
  have start: "startPayload ?c example_fc None initial_state =
      ((0xABC, BlockInsertOK, None),
       \<lparr>world = 1, agossip = None, calls = [CallForkchoiceUpdate example_fc None]\<rparr>)"
    by (simp add: startPayload_def call_ForkchoiceUpdate_def scripted_fields valid
        initial_state_def)
  have start': "startPayload ?c' example_fc None initial_state =
      ((0, BlockInsertTemporaryErr,
        Some (ErrorNew ''nil id in forkchoice result when expecting a valid ID'')),
       \<lparr>world = 1, agossip = None, calls = [CallForkchoiceUpdate example_fc None]\<rparr>)"
    by (simp add: startPayload_def call_ForkchoiceUpdate_def scripted_fields valid
        initial_state_def)
  have ins: "insertPayload ?c example_fc True (Some example_engine_envelope) initial_state =
      (Returned (BlockInsertOK, None), ?s3)"
    using insertPayload_forkchoice_answered
      [of example_engine_envelope "example_payload 0xE1" ?c initial_state 1
        "status_of ExecutionValid" 2 True example_fc ?res 3]
    by (simp add: example_engine_envelope_fields example_payload_sane scripted_fields valid
        example_payload_BlockHash initial_state_def example_fc_def)
  have race: "getPayloadWithBuilderPayload ?c example_info example_head initial_state =
      (Returned (Some example_engine_envelope, None, None, None), ?s1)"
    using getPayloadWithBuilderPayload_disabled
      [of ?c initial_state example_info "Some example_engine_envelope" None 1 example_head]
    by (simp add: scripted_fields initial_state_def)
  have ins': "insertPayload ?c example_fc True (Some example_engine_envelope) ?s1 =
      (Returned (BlockInsertOK, None), ?s4)"
    using insertPayload_forkchoice_answered
      [of example_engine_envelope "example_payload 0xE1" ?c ?s1 2
        "status_of ExecutionValid" 3 True example_fc ?res 4]
    by (simp add: example_engine_envelope_fields example_payload_sane scripted_fields valid
        example_payload_BlockHash example_fc_def)
  have confirm: "confirmPayload ?c example_fc example_info True example_head initial_state =
      (Returned (Some example_engine_envelope, BlockInsertOK, None), ?s4)"
    using race ins'
    by (simp add: confirmPayload_def confirmPayload_get_def confirmPayload_engine_def
        agossip_Get_def initial_state_def)
  from severity_OK_iff_error_nil
    [of ?c example_fc None initial_state "0xABC" BlockInsertOK None
      "\<lparr>world = 1, agossip = None, calls = [CallForkchoiceUpdate example_fc None]\<rparr>"
      True "Some example_engine_envelope" BlockInsertOK None ?s3
      example_info example_head "Some example_engine_envelope" BlockInsertOK None ?s4]
    start start' ins confirm
  show ?thesis by simp
qed

end
